theory Spec2Isabelle
  imports Complex_Main
begin

section \<open>Rows of the attendance log\<close>

text \<open>
  A row of \<^verbatim>\<open>attendance_logs\<close> as the dashboard reads it
  (\<^verbatim>\<open>roll_no, event_type, timestamp, is_spoof, evidence_url\<close>).
  A field that is \<^verbatim>\<open>null\<close> or \<^verbatim>\<open>undefined\<close> is \<open>None\<close>; \<open>roll_no\<close>
  holds \<^verbatim>\<open>String(roll_no)\<close> when it is present.
\<close>

record log_row =
  roll_no :: "string option"
  event_type :: string
  timestamp :: "string option"
  is_spoof :: bool
  evidence_url :: "string option"

section \<open>Occupancy\<close>

text \<open>
  \<^verbatim>\<open>
  function computeDelta(currentOccupancy, row) {
    if (!row) return currentOccupancy;
    if (row.event_type === "ENTRY") return currentOccupancy + 1;
    if (row.event_type === "EXIT") return Math.max(0, currentOccupancy - 1);
    return currentOccupancy;
  }
  \<close>
  The row is optional, as \<^verbatim>\<open>!row\<close> tests it.
\<close>

definition computeDelta :: "int \<Rightarrow> log_row option \<Rightarrow> int" where
  "computeDelta currentOccupancy row =
     (case row of
        None \<Rightarrow> currentOccupancy
      | Some r \<Rightarrow>
          if event_type r = ''ENTRY'' then currentOccupancy + 1
          else if event_type r = ''EXIT'' then max 0 (currentOccupancy - 1)
          else currentOccupancy)"

text \<open>
  \<^verbatim>\<open>
  function computeOccupancyFromLogs(logs) {
    let e = 0;
    logs.forEach((r) => {
      if (r.event_type === "ENTRY") e += 1;
      if (r.event_type === "EXIT") e -= 1;
    });
    setOccupancy(Math.max(0, e));
  }
  \<close>
  \<open>occupancy_body\<close> is the callback of \<^verbatim>\<open>forEach\<close> on the counter \<open>e\<close>,
  \<open>occupancy_scan\<close> the loop, and \<open>computeOccupancyFromLogs\<close> returns the value that
  is handed to \<^verbatim>\<open>setOccupancy\<close>.
\<close>

definition occupancy_body :: "int \<Rightarrow> log_row \<Rightarrow> int" where
  "occupancy_body e r =
     (let e1 = (if event_type r = ''ENTRY'' then e + 1 else e)
      in if event_type r = ''EXIT'' then e1 - 1 else e1)"

fun occupancy_scan :: "int \<Rightarrow> log_row list \<Rightarrow> int" where
  "occupancy_scan e [] = e"
| "occupancy_scan e (r # logs) = occupancy_scan (occupancy_body e r) logs"

definition computeOccupancyFromLogs :: "log_row list \<Rightarrow> int" where
  "computeOccupancyFromLogs logs = max 0 (occupancy_scan 0 logs)"

text \<open>
  The signed sum in the words of the specification: \<open>+1\<close> for each ENTRY, \<open>-1\<close> for
  each EXIT, nothing for any other event type.
\<close>

definition signed_sum :: "log_row list \<Rightarrow> int" where
  "signed_sum logs =
     int (length (filter (\<lambda>r. event_type r = ''ENTRY'') logs))
     - int (length (filter (\<lambda>r. event_type r = ''EXIT'') logs))"

text \<open>A row with the given event type and nothing else set.\<close>

definition ev :: "string \<Rightarrow> log_row" where
  "ev t = \<lparr>roll_no = None, event_type = t, timestamp = None, is_spoof = False,
           evidence_url = None\<rparr>"

section \<open>Unique subjects inside and intruders\<close>

text \<open>
  \<^verbatim>\<open>
  const hasRoll =
    ev.roll_no !== null &&
    ev.roll_no !== undefined &&
    String(ev.roll_no).trim() !== "";
  \<close>
  Strings are byte strings here, and \<open>trim\<close> strips the ASCII white space of
  \<^verbatim>\<open>String.prototype.trim\<close> only: a roll number made of other Unicode white space
  (U+00A0, U+FEFF, U+2028, U+3000 and the like) counts as present here and as absent
  in the source. The results below use \<open>hasRoll\<close> only as the test the scan
  branches on, and hold whichever rows it accepts.
\<close>

definition is_space :: "char \<Rightarrow> bool" where
  "is_space c = (c \<in> set [CHR '' '', CHR 0x09, CHR 0x0A, CHR 0x0B, CHR 0x0C, CHR 0x0D])"

definition trim :: "string \<Rightarrow> string" where
  "trim s = rev (dropWhile is_space (rev (dropWhile is_space s)))"

definition hasRoll :: "log_row \<Rightarrow> bool" where
  "hasRoll r = (case roll_no r of None \<Rightarrow> False | Some s \<Rightarrow> trim s \<noteq> [])"

text \<open>
  A string field in a boolean position (\<^verbatim>\<open>a || b\<close>): \<^verbatim>\<open>null\<close>,
  \<^verbatim>\<open>undefined\<close> and the empty string are falsy.
\<close>

definition truthy :: "string option \<Rightarrow> bool" where
  "truthy v = (case v of None \<Rightarrow> False | Some s \<Rightarrow> s \<noteq> [])"

text \<open>
  The string a field holds, and \<^verbatim>\<open>String(v)\<close>, which prints an absent value as
  \<^verbatim>\<open>null\<close>. Both are read only where the field has been tested before.
\<close>

definition string_of :: "string option \<Rightarrow> string" where
  "string_of v = (case v of None \<Rightarrow> [] | Some s \<Rightarrow> s)"

definition js_String :: "string option \<Rightarrow> string" where
  "js_String v = (case v of None \<Rightarrow> ''null'' | Some s \<Rightarrow> s)"

text \<open>
  The elements of the \<^verbatim>\<open>Set\<close> of intruder keys: a string (an evidence URL or a
  timestamp) or a number drawn by \<^verbatim>\<open>Math.random()\<close>. A string never equals a number
  in a \<^verbatim>\<open>Set\<close>.
\<close>

datatype js_key = KStr string | KNum rat

text \<open>
  The state of the scan: \<^verbatim>\<open>rollLatest\<close> (a \<^verbatim>\<open>Map\<close>, here its entries in
  insertion order), \<^verbatim>\<open>intruderSeen\<close> (a \<^verbatim>\<open>Set\<close>, here its elements in insertion
  order), and the number of calls of \<^verbatim>\<open>Math.random()\<close> made so far. The random source
  is a parameter \<open>rnd\<close>: its \<open>n\<close>-th call returns \<open>rnd n\<close>.
\<close>

record scan_state =
  rollLatest :: "(string \<times> string) list"
  intruderSeen :: "js_key list"
  draws :: nat

definition scan_init :: scan_state where
  "scan_init = \<lparr>rollLatest = [], intruderSeen = [], draws = 0\<rparr>"

text \<open>
  \<^verbatim>\<open>
  if (hasRoll) {
    const r = String(ev.roll_no);
    if (!rollLatest.has(r)) rollLatest.set(r, ev.event_type);
  } else {
    const key = ev.evidence_url || ev.timestamp || Math.random();
    if (!intruderSeen.has(key) && ev.event_type === "ENTRY") {
      intruderSeen.add(key);
    }
  }
  \<close>
\<close>

definition scan_body :: "(nat \<Rightarrow> rat) \<Rightarrow> scan_state \<Rightarrow> log_row \<Rightarrow> scan_state" where
  "scan_body rnd s r =
     (if hasRoll r then
        (let k = js_String (roll_no r)
         in if k \<in> fst ` set (rollLatest s) then s
            else s\<lparr>rollLatest := rollLatest s @ [(k, event_type r)]\<rparr>)
      else
        (let (key, s1) =
               (if truthy (evidence_url r) then (KStr (string_of (evidence_url r)), s)
                else if truthy (timestamp r) then (KStr (string_of (timestamp r)), s)
                else (KNum (rnd (draws s)), s\<lparr>draws := draws s + 1\<rparr>))
         in if key \<notin> set (intruderSeen s1) \<and> event_type r = ''ENTRY''
            then s1\<lparr>intruderSeen := intruderSeen s1 @ [key]\<rparr>
            else s1))"

fun scan_loop :: "(nat \<Rightarrow> rat) \<Rightarrow> scan_state \<Rightarrow> log_row list \<Rightarrow> scan_state" where
  "scan_loop rnd s [] = s"
| "scan_loop rnd s (r # logs) = scan_loop rnd (scan_body rnd s r) logs"

record metrics =
  uniqueIn :: nat
  intruderCount :: nat

text \<open>
  \<^verbatim>\<open>
  function computeUniqueInAndIntruders(logs) {
    if (!logs || logs.length === 0) return { uniqueIn: 0, intruderCount: 0 };
    ... the scan ...
    let uniqueIn = 0;
    for (const [, evt] of rollLatest.entries()) if (evt === "ENTRY") uniqueIn++;
    return { uniqueIn, intruderCount: intruderSeen.size };
  }
  \<close>
  \<open>None\<close> is a \<^verbatim>\<open>null\<close> or \<^verbatim>\<open>undefined\<close> argument.
\<close>

definition computeUniqueInAndIntruders :: "(nat \<Rightarrow> rat) \<Rightarrow> log_row list option \<Rightarrow> metrics" where
  "computeUniqueInAndIntruders rnd logs =
     (case logs of
        None \<Rightarrow> \<lparr>uniqueIn = 0, intruderCount = 0\<rparr>
      | Some [] \<Rightarrow> \<lparr>uniqueIn = 0, intruderCount = 0\<rparr>
      | Some ls \<Rightarrow>
          (let s = scan_loop rnd scan_init ls
           in \<lparr>uniqueIn = length (filter (\<lambda>(_, evt). evt = ''ENTRY'') (rollLatest s)),
               intruderCount = length (intruderSeen s)\<rparr>))"

text \<open>The intruder-key set at the end of the scan.\<close>

definition intruder_keys :: "(nat \<Rightarrow> rat) \<Rightarrow> log_row list \<Rightarrow> js_key list" where
  "intruder_keys rnd logs = intruderSeen (scan_loop rnd scan_init logs)"

text \<open>
  The key the scan gives to a row without a roll number when \<open>n\<close> random numbers have
  been drawn before it, and whether the row draws one.
\<close>

definition key_of :: "(nat \<Rightarrow> rat) \<Rightarrow> nat \<Rightarrow> log_row \<Rightarrow> js_key" where
  "key_of rnd n r =
     (if truthy (evidence_url r) then KStr (string_of (evidence_url r))
      else if truthy (timestamp r) then KStr (string_of (timestamp r))
      else KNum (rnd n))"

definition random_keyed :: "log_row \<Rightarrow> bool" where
  "random_keyed r = (\<not> hasRoll r \<and> \<not> truthy (evidence_url r) \<and> \<not> truthy (timestamp r))"

definition count_random :: "log_row list \<Rightarrow> nat" where
  "count_random logs = length (filter random_keyed logs)"

text \<open>A random source for the examples: pairwise different numbers in \<open>[0, 1)\<close>.\<close>

definition sample_draws :: "nat \<Rightarrow> rat" where
  "sample_draws n = 1 - 1 / (of_nat n + 1)"

text \<open>An intruder sighting: no roll number, the given event type, timestamp and evidence.\<close>

definition sighting :: "string \<Rightarrow> string option \<Rightarrow> string option \<Rightarrow> log_row" where
  "sighting t ts url = \<lparr>roll_no = None, event_type = t, timestamp = ts, is_spoof = False,
                        evidence_url = url\<rparr>"

text \<open>An identified event: roll number and event type.\<close>

definition known :: "string \<Rightarrow> string \<Rightarrow> log_row" where
  "known roll t = \<lparr>roll_no = Some roll, event_type = t, timestamp = Some ''2025-01-01T09:00:00'',
                   is_spoof = False, evidence_url = None\<rparr>"

section \<open>Attendance duration\<close>

text \<open>
  The value of \<^verbatim>\<open>new Date(log.timestamp).getTime()\<close>: a whole number of
  milliseconds, or \<^verbatim>\<open>NaN\<close> for a timestamp that is no date.
\<close>

datatype time_value = NaN | TimeValue int

text \<open>
  A row of the attendance query (\<^verbatim>\<open>event_type, timestamp, is_spoof\<close>, filtered to
  one roll number and \<^verbatim>\<open>is_spoof = false\<close>, oldest first), with the time the loop
  reads from it: \<open>logTime\<close> is the loop's \<^verbatim>\<open>const logTime\<close>.
\<close>

record attendance_log =
  log_event_type :: string
  logTime :: time_value

text \<open>\<^verbatim>\<open>logTime > entryTime\<close> on time values: false when either side is \<^verbatim>\<open>NaN\<close>.\<close>

fun js_gt :: "time_value \<Rightarrow> time_value \<Rightarrow> bool" where
  "js_gt (TimeValue a) (TimeValue b) = (b < a)"
| "js_gt _ _ = False"

text \<open>
  \<^verbatim>\<open>(logTime - entryTime) / 60000\<close>. Minutes are doubles in the source and exact
  rationals here, so a printed duration or percentage can differ in its last digit
  where a quotient is not a double (a session of 43.2 seconds prints \<open>0.2%\<close> here and
  \<open>0.1%\<close> in the source); the histories evaluated below are exact in doubles. The loop evaluates the difference only after \<^verbatim>\<open>logTime > entryTime\<close>
  has held, so neither side is \<^verbatim>\<open>NaN\<close> there; the other equation keeps the function
  total.
\<close>

fun elapsed_minutes :: "time_value \<Rightarrow> time_value \<Rightarrow> rat" where
  "elapsed_minutes (TimeValue a) (TimeValue b) = of_int (a - b) / 60000"
| "elapsed_minutes _ _ = 0"

text \<open>
  \<^verbatim>\<open>
  let totalDurationMinutes = 0;
  let entryTime = null;
  logs.forEach((log) => {
    const logTime = new Date(log.timestamp).getTime();
    if (log.event_type === "ENTRY") {
      if (entryTime === null) entryTime = logTime;
    } else if (log.event_type === "EXIT") {
      if (entryTime !== null && logTime > entryTime) {
        totalDurationMinutes += (logTime - entryTime) / 60000;
        entryTime = null;
      }
    }
  });
  \<close>
  The state of the loop is the pair \<open>(totalDurationMinutes, entryTime)\<close>; \<open>None\<close> is
  \<^verbatim>\<open>null\<close>.
\<close>

type_synonym pairing_state = "rat \<times> time_value option"

fun pairing_body :: "pairing_state \<Rightarrow> attendance_log \<Rightarrow> pairing_state" where
  "pairing_body (mins, entryTime) row =
     (if log_event_type row = ''ENTRY'' then
        (if entryTime = None then (mins, Some (logTime row)) else (mins, entryTime))
      else if log_event_type row = ''EXIT'' then
        (case entryTime of
           None \<Rightarrow> (mins, entryTime)
         | Some t \<Rightarrow>
             if js_gt (logTime row) t
             then (mins + elapsed_minutes (logTime row) t, None)
             else (mins, entryTime))
      else (mins, entryTime))"

fun pairing_loop :: "pairing_state \<Rightarrow> attendance_log list \<Rightarrow> pairing_state" where
  "pairing_loop s [] = s"
| "pairing_loop s (row # logs) = pairing_loop (pairing_body s row) logs"

definition totalDurationMinutes :: "attendance_log list \<Rightarrow> rat" where
  "totalDurationMinutes logs = fst (pairing_loop (0, None) logs)"

definition open_entry :: "attendance_log list \<Rightarrow> time_value option" where
  "open_entry logs = snd (pairing_loop (0, None) logs)"

text \<open>Decimal digits of a natural number, as a template literal prints a whole number.\<close>

definition digit_char :: "nat \<Rightarrow> char" where
  "digit_char d = ''0123456789'' ! (d mod 10)"

function show_nat :: "nat \<Rightarrow> string" where
  "show_nat n = (if n < 10 then [digit_char n] else show_nat (n div 10) @ [digit_char (n mod 10)])"
  by pat_completeness auto
termination
  by (relation "measure (\<lambda>n. n)") auto

declare show_nat.simps [simp del]

definition show_int :: "int \<Rightarrow> string" where
  "show_int i = (if i < 0 then CHR ''-'' # show_nat (nat (- i)) else show_nat (nat i))"

text \<open>
  \<^verbatim>\<open>x % y\<close> (the quotient is truncated towards zero), \<^verbatim>\<open>Math.round\<close> (halves go
  up) and \<^verbatim>\<open>x.toFixed(1)\<close> (the nearest tenth, the larger one at a tie), on exact
  rationals.
\<close>

definition js_rem :: "rat \<Rightarrow> rat \<Rightarrow> rat" where
  "js_rem x y = x - y * of_int (if 0 \<le> x / y then \<lfloor>x / y\<rfloor> else \<lceil>x / y\<rceil>)"

definition Math_round :: "rat \<Rightarrow> int" where
  "Math_round x = \<lfloor>x + 1 / 2\<rfloor>"

definition toFixed1 :: "rat \<Rightarrow> string" where
  "toFixed1 x =
     (let n = nat \<lfloor>\<bar>x\<bar> * 10 + 1 / 2\<rfloor>
      in (if x < 0 then ''-'' else '''') @ show_nat (n div 10) @ ''.'' @ show_nat (n mod 10))"

text \<open>
  \<^verbatim>\<open>
  const TOTAL_SCHEDULED_MINUTES = 480;
  const percentage = Math.min(100,
    (totalDurationMinutes / TOTAL_SCHEDULED_MINUTES) * 100).toFixed(1);
  const hours = Math.floor(totalDurationMinutes / 60);
  const minutes = Math.round(totalDurationMinutes % 60);
  const durationString = `${hours}h ${minutes}m`;
  \<close>
\<close>

definition TOTAL_SCHEDULED_MINUTES :: rat where
  "TOTAL_SCHEDULED_MINUTES = 480"

definition percentage_value :: "rat \<Rightarrow> rat" where
  "percentage_value mins = min 100 (mins / TOTAL_SCHEDULED_MINUTES * 100)"

definition hours_of :: "rat \<Rightarrow> int" where
  "hours_of mins = \<lfloor>mins / 60\<rfloor>"

definition minutes_of :: "rat \<Rightarrow> int" where
  "minutes_of mins = Math_round (js_rem mins 60)"

definition durationString :: "rat \<Rightarrow> string" where
  "durationString mins = show_int (hours_of mins) @ ''h '' @ show_int (minutes_of mins) @ ''m''"

record attendance =
  duration :: string
  percentage :: string

text \<open>What the awaited query gives: it rejects, it reports an error, or it has data
  (which may be \<^verbatim>\<open>null\<close>).\<close>

datatype query_outcome = Rejected | Failed | Rows "attendance_log list option"

text \<open>The dash of the placeholder results, U+2014, in UTF-8.\<close>

definition em_dash :: string where
  "em_dash = [CHR 0xE2, CHR 0x80, CHR 0x94]"

text \<open>
  \<^verbatim>\<open>
  async function calculateStudentAttendance(rollNo, allStudentsMap) {
    if (!supabase || !rollNo) return { duration: "N/A", percentage: "\<emdash>" };
    try {
      const { data: logs, error } = await supabase.from("attendance_logs")...;
      if (error) { ...; return { duration: "DB Error", percentage: "\<emdash>" }; }
      if (!logs || logs.length === 0) {
        return { duration: "0h 0m", percentage: "0%" };
      }
      ... the loop and the formatting ...
      return { duration: durationString, percentage: `${percentage}%` };
    } catch (err) {
      return { duration: "Fail", percentage: "\<emdash>" };
    }
  }
  \<close>
  \<open>supabase\<close> tells whether the module's client is set, \<open>rollNo\<close> is the searched roll
  number (empty is falsy), and the outcome of the query is a parameter. The second
  parameter of the source is never read.
\<close>

definition calculateStudentAttendance :: "bool \<Rightarrow> string \<Rightarrow> query_outcome \<Rightarrow> attendance" where
  "calculateStudentAttendance supabase rollNo outcome =
     (if \<not> supabase \<or> rollNo = [] then \<lparr>duration = ''N/A'', percentage = em_dash\<rparr>
      else case outcome of
        Rejected \<Rightarrow> \<lparr>duration = ''Fail'', percentage = em_dash\<rparr>
      | Failed \<Rightarrow> \<lparr>duration = ''DB Error'', percentage = em_dash\<rparr>
      | Rows None \<Rightarrow> \<lparr>duration = ''0h 0m'', percentage = ''0%''\<rparr>
      | Rows (Some []) \<Rightarrow> \<lparr>duration = ''0h 0m'', percentage = ''0%''\<rparr>
      | Rows (Some logs) \<Rightarrow>
          (let mins = totalDurationMinutes logs
           in \<lparr>duration = durationString mins,
               percentage = toFixed1 (percentage_value mins) @ ''%''\<rparr>))"

text \<open>An ENTRY and an EXIT row at a time in milliseconds.\<close>

definition entry_at :: "time_value \<Rightarrow> attendance_log" where
  "entry_at t = \<lparr>log_event_type = ''ENTRY'', logTime = t\<rparr>"

definition exit_at :: "time_value \<Rightarrow> attendance_log" where
  "exit_at t = \<lparr>log_event_type = ''EXIT'', logTime = t\<rparr>"

section \<open>The generative client\<close>

text \<open>
  What one \<^verbatim>\<open>fetch\<close> of the loop meets. The call rejects, or it resolves to a
  response with a status; \<^verbatim>\<open>response.ok\<close> is the status being in 200..299. Reading
  the body (\<^verbatim>\<open>response.json()\<close> and the chain
  \<^verbatim>\<open>result.candidates?.[0]?.content?.parts?.[0]?.text\<close>) throws, or gives the text
  field, \<open>None\<close> when the chain ends in \<^verbatim>\<open>undefined\<close>.
\<close>

datatype body_outcome = BodyThrows | Body "string option"

datatype fetch_outcome = FetchRejects | Response nat body_outcome

definition response_ok :: "nat \<Rightarrow> bool" where
  "response_ok status = (200 \<le> status \<and> status \<le> 299)"

text \<open>The exceptions raised inside the \<^verbatim>\<open>try\<close> block.\<close>

datatype exn = NetworkError | ApiError nat | BodyError | EmptyResponse

text \<open>
  How a block of the loop body ends: with a \<^verbatim>\<open>return\<close>, with a \<^verbatim>\<open>throw\<close>, or by
  going on to the next round (\<^verbatim>\<open>continue\<close>, or reaching the end of the block).
\<close>

datatype flow = Return string | Throw exn | Next

definition offline_message :: string where
  "offline_message = ''Error: AI Assistant is offline (Missing API Key).''"

definition retries_message :: string where
  "retries_message = ''Error: AI Assistant failed to process the request after multiple retries.''"

definition failed_message :: string where
  "failed_message = ''Error: AI Assistant failed to process the request.''"

text \<open>
  \<^verbatim>\<open>
  try {
    const response = await fetch(apiUrl, {...});
    if (response.status === 429) { ...; await new Promise(...); continue; }
    if (!response.ok) {
      const errorBody = await response.json();
      throw new Error(`API Error ${response.status}: ...`);
    }
    const result = await response.json();
    const generatedText = result.candidates?.[0]?.content?.parts?.[0]?.text;
    if (generatedText) { return generatedText; }
    else { throw new Error("Received empty response from the API."); }
  }
  \<close>
  The waits change no value and are left out.
\<close>

definition try_block :: "fetch_outcome \<Rightarrow> flow" where
  "try_block outcome =
     (case outcome of
        FetchRejects \<Rightarrow> Throw NetworkError
      | Response status body \<Rightarrow>
          if status = 429 then Next
          else if \<not> response_ok status then
            (case body of BodyThrows \<Rightarrow> Throw BodyError | Body _ \<Rightarrow> Throw (ApiError status))
          else
            (case body of
               BodyThrows \<Rightarrow> Throw BodyError
             | Body generatedText \<Rightarrow>
                 if truthy generatedText then Return (string_of generatedText)
                 else Throw EmptyResponse))"

text \<open>
  \<^verbatim>\<open>
  catch (error) {
    console.error(...);
    if (attempt === maxRetries - 1) {
      return "Error: AI Assistant failed to process the request after multiple retries.";
    }
    await new Promise((resolve) => setTimeout(resolve, 2000));
  }
  \<close>
\<close>

definition catch_block :: "nat \<Rightarrow> int \<Rightarrow> exn \<Rightarrow> flow" where
  "catch_block attempt maxRetries error =
     (if int attempt = maxRetries - 1 then Return retries_message else Next)"

definition loop_body :: "nat \<Rightarrow> int \<Rightarrow> fetch_outcome \<Rightarrow> flow" where
  "loop_body attempt maxRetries outcome =
     (case try_block outcome of
        Throw error \<Rightarrow> catch_block attempt maxRetries error
      | Return text \<Rightarrow> Return text
      | Next \<Rightarrow> Next)"

text \<open>
  \<^verbatim>\<open>for (let attempt = 0; attempt < maxRetries; attempt++) { try ... catch ... }\<close>
  The \<open>n\<close>-th call of \<^verbatim>\<open>fetch\<close> meets \<open>fetch n\<close>.
\<close>

function attempts :: "(nat \<Rightarrow> fetch_outcome) \<Rightarrow> int \<Rightarrow> nat \<Rightarrow> flow" where
  "attempts fetch maxRetries attempt =
     (if int attempt < maxRetries then
        (case loop_body attempt maxRetries (fetch attempt) of
           Return text \<Rightarrow> Return text
         | Throw error \<Rightarrow> Throw error
         | Next \<Rightarrow> attempts fetch maxRetries (attempt + 1))
      else Next)"
  by pat_completeness auto
termination
  by (relation "measure (\<lambda>(fetch, maxRetries, attempt). nat (maxRetries - int attempt))") auto

declare attempts.simps [simp del]

text \<open>
  \<^verbatim>\<open>
  export async function generateContent(systemInstruction, userQuery, maxRetries = 3) {
    if (!API_KEY) { ...; return "Error: AI Assistant is offline (Missing API Key)."; }
    ...
    for (...) { ... }
    return "Error: AI Assistant failed to process the request.";
  }
  \<close>
  \<open>API_KEY\<close> is the module constant read from the environment. The result is \<open>Inr\<close> a
  returned string or \<open>Inl\<close> an exception that leaves the function.
\<close>

definition generateContent ::
  "string \<Rightarrow> (nat \<Rightarrow> fetch_outcome) \<Rightarrow> string \<Rightarrow> string \<Rightarrow> int \<Rightarrow> exn + string" where
  "generateContent API_KEY fetch systemInstruction userQuery maxRetries =
     (if API_KEY = [] then Inr offline_message
      else case attempts fetch maxRetries 0 of
        Return text \<Rightarrow> Inr text
      | Throw error \<Rightarrow> Inl error
      | Next \<Rightarrow> Inr failed_message)"

text \<open>The text a call of \<^verbatim>\<open>fetch\<close> succeeds with, if it does: a non-empty text field.\<close>

definition success_text :: "fetch_outcome \<Rightarrow> string option" where
  "success_text outcome = (case try_block outcome of Return text \<Rightarrow> Some text | _ \<Rightarrow> None)"

definition rate_limited :: "fetch_outcome \<Rightarrow> bool" where
  "rate_limited outcome = (case outcome of Response status _ \<Rightarrow> status = 429 | _ \<Rightarrow> False)"

text \<open>Fetch behaviours for the examples.\<close>

definition always_429 :: "nat \<Rightarrow> fetch_outcome" where
  "always_429 n = Response 429 BodyThrows"

definition third_time_lucky :: "nat \<Rightarrow> fetch_outcome" where
  "third_time_lucky n =
     (if n = 0 then Response 429 BodyThrows
      else if n = 1 then Response 500 (Body None)
      else Response 200 (Body (Some ''Two proxy attempts were logged today.'')))"

definition always_empty :: "nat \<Rightarrow> fetch_outcome" where
  "always_empty n = Response 200 (Body (Some ''''))"

section \<open>The question analysis\<close>

text \<open>
  \<^verbatim>\<open>toLowerCase\<close> and \<^verbatim>\<open>includes\<close> on byte strings. The keywords are ASCII, and
  no other character lower-cases to a run of their letters, so mapping \<open>A..Z\<close> to
  \<open>a..z\<close> decides the same tests.
\<close>

definition lower_char :: "char \<Rightarrow> char" where
  "lower_char c =
     (case map_of (zip ''ABCDEFGHIJKLMNOPQRSTUVWXYZ'' ''abcdefghijklmnopqrstuvwxyz'') c of
        Some d \<Rightarrow> d
      | None \<Rightarrow> c)"

definition toLowerCase :: "string \<Rightarrow> string" where
  "toLowerCase s = map lower_char s"

fun starts_with :: "string \<Rightarrow> string \<Rightarrow> bool" where
  "starts_with s [] = True"
| "starts_with [] (d # ds) = False"
| "starts_with (c # cs) (d # ds) = (c = d \<and> starts_with cs ds)"

fun js_includes :: "string \<Rightarrow> string \<Rightarrow> bool" where
  "js_includes [] sub = (sub = [])"
| "js_includes (c # cs) sub = (starts_with (c # cs) sub \<or> js_includes cs sub)"

text \<open>
  The calls made on the query builder after
  \<^verbatim>\<open>supabaseClient.from("attendance_logs").select("*")\<close>, in order:
  \<^verbatim>\<open>.eq(column, value)\<close>, \<^verbatim>\<open>.is(column, null)\<close>, \<^verbatim>\<open>.in(column, values)\<close>,
  \<^verbatim>\<open>.gte(column, value)\<close> and \<^verbatim>\<open>.order(column, { ascending })\<close>.
\<close>

datatype query_call =
    Eq string bool
  | IsNull string
  | In string "string list"
  | Gte string string
  | Order string bool

text \<open>
  A row of \<^verbatim>\<open>students\<close> as a query returns it: the roll number and, when the
  column was selected, the full name.
\<close>

datatype student = Student (student_roll_no: string) (student_full_name: "string option")

text \<open>
  The database client, as far as the analysis uses it. \<open>students_ilike pattern\<close> is the
  \<^verbatim>\<open>data\<close> of
  \<^verbatim>\<open>from("students").select("roll_no").ilike("full_name", pattern)\<close>;
  \<open>logs_select calls\<close> is \<^verbatim>\<open>{ data, error }\<close> of the built query over
  \<^verbatim>\<open>attendance_logs\<close>. The rows of the latter are only counted and serialised, so
  their type is left open, and \<open>JSON_stringify\<close> serialises them.
\<close>

record 'row supabase_client =
  students_ilike :: "string \<Rightarrow> student list option"
  logs_select :: "query_call list \<Rightarrow> 'row list option \<times> bool"
  JSON_stringify :: "'row list \<Rightarrow> string"

definition ANALYST_PROMPT :: string where
  "ANALYST_PROMPT =
     ''You are a specialized security and attendance analyst named '' @ [CHR 0x27]
     @ ''The Sentry AI'' @ [CHR 0x27]
     @ ''. Your task is to analyze the provided raw attendance data (which is in JSON format) and answer the user''
     @ [CHR 0x27]
     @ ''s question clearly and conversationally. Do not include the raw JSON data in your final answer. State the total number of threats found.''"

text \<open>
  The three variables of the translation: \<^verbatim>\<open>queryBuilder\<close> (the calls made on it so
  far), \<^verbatim>\<open>dataLabel\<close> and \<^verbatim>\<open>filterApplied\<close>.
\<close>

record translation =
  queryBuilder :: "query_call list"
  dataLabel :: string
  filterApplied :: bool

definition translation_init :: translation where
  "translation_init = \<lparr>queryBuilder = [], dataLabel = ''Attendance Logs'', filterApplied = False\<rparr>"

text \<open>
  \<^verbatim>\<open>
  if (userQuestion.toLowerCase().includes("proxy") ||
      userQuestion.toLowerCase().includes("proxies")) {
    queryBuilder = queryBuilder.eq("is_spoof", true);
    dataLabel = "Proxy Attempts";
    filterApplied = true;
  }
  \<close>
\<close>

definition check_proxies :: "string \<Rightarrow> translation \<Rightarrow> translation" where
  "check_proxies userQuestion t =
     (if js_includes (toLowerCase userQuestion) ''proxy''
         \<or> js_includes (toLowerCase userQuestion) ''proxies''
      then t\<lparr>queryBuilder := queryBuilder t @ [Eq ''is_spoof'' True],
             dataLabel := ''Proxy Attempts'', filterApplied := True\<rparr>
      else t)"

text \<open>
  \<^verbatim>\<open>
  if (userQuestion.toLowerCase().includes("intruder") ||
      userQuestion.toLowerCase().includes("intruders")) {
    queryBuilder = queryBuilder.is("roll_no", null);
    dataLabel = "Intruder Sightings";
    filterApplied = true;
  }
  \<close>
\<close>

definition check_intruders :: "string \<Rightarrow> translation \<Rightarrow> translation" where
  "check_intruders userQuestion t =
     (if js_includes (toLowerCase userQuestion) ''intruder''
         \<or> js_includes (toLowerCase userQuestion) ''intruders''
      then t\<lparr>queryBuilder := queryBuilder t @ [IsNull ''roll_no''],
             dataLabel := ''Intruder Sightings'', filterApplied := True\<rparr>
      else t)"

definition not_found_message :: "string \<Rightarrow> string" where
  "not_found_message namePart =
     ''AI Assistant: I cannot find activity logs for '' @ [CHR 0x27] @ namePart @ [CHR 0x27]
     @ ''. Please check the name or Roll Number.''"

text \<open>What a template literal prints for a string that may be \<^verbatim>\<open>undefined\<close>.\<close>

definition template_string :: "string option \<Rightarrow> string" where
  "template_string v = (case v of None \<Rightarrow> ''undefined'' | Some s \<Rightarrow> s)"

text \<open>
  \<^verbatim>\<open>
  if (userQuestion.toLowerCase().includes("ashraf") ||
      userQuestion.toLowerCase().includes("mahaboob")) {
    const namePart = userQuestion.toLowerCase().includes("ashraf") ? "ashraf" : "mahaboob";
    const { data: studentData } = await supabaseClient.from("students")
      .select("roll_no").ilike("full_name", `%${namePart}%`);
    if (studentData && studentData.length > 0) {
      const roll_nos = studentData.map((s) => s.roll_no);
      queryBuilder = queryBuilder.in("roll_no", roll_nos);
      dataLabel = `${studentData[0].full_name}'s Activity`;
      filterApplied = true;
    } else if (!filterApplied) {
      return `AI Assistant: I cannot find activity logs for '${namePart}'. ...`;
    }
  }
  \<close>
  \<open>Inl\<close> is the early \<^verbatim>\<open>return\<close>.
\<close>

definition mentions_student :: "string \<Rightarrow> bool" where
  "mentions_student userQuestion =
     (js_includes (toLowerCase userQuestion) ''ashraf''
      \<or> js_includes (toLowerCase userQuestion) ''mahaboob'')"

definition namePart :: "string \<Rightarrow> string" where
  "namePart userQuestion =
     (if js_includes (toLowerCase userQuestion) ''ashraf'' then ''ashraf'' else ''mahaboob'')"

definition name_pattern :: "string \<Rightarrow> string" where
  "name_pattern userQuestion = ''%'' @ namePart userQuestion @ ''%''"

definition check_student ::
  "'row supabase_client \<Rightarrow> string \<Rightarrow> translation \<Rightarrow> string + translation" where
  "check_student supabaseClient userQuestion t =
     (if mentions_student userQuestion then
        (case students_ilike supabaseClient (name_pattern userQuestion) of
           Some (s # rest) \<Rightarrow>
             Inr (t\<lparr>queryBuilder := queryBuilder t @ [In ''roll_no'' (map student_roll_no (s # rest))],
                    dataLabel := template_string (student_full_name s) @ [CHR 0x27] @ ''s Activity'',
                    filterApplied := True\<rparr>)
         | _ \<Rightarrow>
             if \<not> filterApplied t then Inl (not_found_message (namePart userQuestion))
             else Inr t)
      else Inr t)"

text \<open>
  \<^verbatim>\<open>
  if (!filterApplied || userQuestion.toLowerCase().includes("today")) {
    queryBuilder = queryBuilder.gte("timestamp", today);
    dataLabel += " (Today)";
  }
  \<close>
  \<open>today\<close> is \<^verbatim>\<open>new Date().toISOString().split("T")[0]\<close>, the date of the current day.
\<close>

definition time_constraint :: "string \<Rightarrow> string \<Rightarrow> translation \<Rightarrow> translation" where
  "time_constraint today userQuestion t =
     (if \<not> filterApplied t \<or> js_includes (toLowerCase userQuestion) ''today''
      then t\<lparr>queryBuilder := queryBuilder t @ [Gte ''timestamp'' today],
             dataLabel := dataLabel t @ '' (Today)''\<rparr>
      else t)"

text \<open>Steps A to D of \<^verbatim>\<open>runRAGAnalysis\<close>: the translation of the question.\<close>

definition translate ::
  "'row supabase_client \<Rightarrow> string \<Rightarrow> string \<Rightarrow> string + translation" where
  "translate supabaseClient today userQuestion =
     (case check_student supabaseClient userQuestion
             (check_intruders userQuestion (check_proxies userQuestion translation_init)) of
        Inl reply \<Rightarrow> Inl reply
      | Inr t \<Rightarrow> Inr (time_constraint today userQuestion t))"

text \<open>
  What \<^verbatim>\<open>runRAGAnalysis\<close> does to the outside, in order: the lookup in
  \<^verbatim>\<open>students\<close>, the retrieval from \<^verbatim>\<open>attendance_logs\<close>, the call of
  \<^verbatim>\<open>generateContent\<close> with its two arguments.
\<close>

datatype rag_effect =
    StudentsQuery string
  | LogsQuery "query_call list"
  | GenerateContent string string

definition lookup_effects :: "string \<Rightarrow> rag_effect list" where
  "lookup_effects userQuestion =
     (if mentions_student userQuestion then [StudentsQuery (name_pattern userQuestion)] else [])"

text \<open>
  \<^verbatim>\<open>
  const userQueryWithContext = `User Question: "${userQuestion}". Data Retrieved (${
    rawData.length} records for ${dataLabel}): ${JSON.stringify(rawData)}`;
  \<close>
\<close>

definition userQueryWithContext ::
  "'row supabase_client \<Rightarrow> string \<Rightarrow> string \<Rightarrow> 'row list \<Rightarrow> string" where
  "userQueryWithContext supabaseClient userQuestion label rawData =
     ''User Question: '' @ [CHR 0x22] @ userQuestion @ [CHR 0x22] @ ''. Data Retrieved (''
     @ show_nat (length rawData) @ '' records for '' @ label @ ''): ''
     @ JSON_stringify supabaseClient rawData"

text \<open>
  \<^verbatim>\<open>
  export async function runRAGAnalysis(supabaseClient, userQuestion) {
    if (!supabaseClient) return "Error: Database connection is offline. ...";
    ... steps A to D ...
    const { data: rawData, error: dbError } =
      await queryBuilder.order("timestamp", { ascending: false });
    if (dbError) { ...; return "AI Assistant: A database error occurred during data retrieval."; }
    if (!rawData || rawData.length === 0) {
      return `AI Assistant: No ${dataLabel} found in the logs matching your criteria.`;
    }
    ...
    const aiResponse = await generateContent(ANALYST_PROMPT, userQueryWithContext);
    return `AI Assistant: ${aiResponse}`;
  }
  \<close>
  The result is what the function returns (\<open>Inl\<close> an exception of \<open>generateContent\<close>
  that would pass through it) and the effects it had. \<open>API_KEY\<close> and \<open>fetch\<close> are what
  \<open>generateContent\<close> runs on; it is called with the default of three attempts.
\<close>

definition runRAGAnalysis ::
  "string \<Rightarrow> (nat \<Rightarrow> fetch_outcome) \<Rightarrow> string \<Rightarrow> 'row supabase_client option \<Rightarrow> string
     \<Rightarrow> (exn + string) \<times> rag_effect list" where
  "runRAGAnalysis API_KEY fetch today supabaseClient userQuestion =
     (case supabaseClient of
        None \<Rightarrow> (Inr ''Error: Database connection is offline. Cannot perform RAG analysis.'', [])
      | Some client \<Rightarrow>
          (case translate client today userQuestion of
             Inl reply \<Rightarrow> (Inr reply, lookup_effects userQuestion)
           | Inr t \<Rightarrow>
               (let calls = queryBuilder t @ [Order ''timestamp'' False];
                    (rawData, dbError) = logs_select client calls;
                    retrieval = lookup_effects userQuestion @ [LogsQuery calls]
                in if dbError then
                     (Inr ''AI Assistant: A database error occurred during data retrieval.'',
                      retrieval)
                   else case rawData of
                     None \<Rightarrow>
                       (Inr (''AI Assistant: No '' @ dataLabel t
                              @ '' found in the logs matching your criteria.''), retrieval)
                   | Some [] \<Rightarrow>
                       (Inr (''AI Assistant: No '' @ dataLabel t
                              @ '' found in the logs matching your criteria.''), retrieval)
                   | Some rows \<Rightarrow>
                       (let query = userQueryWithContext client userQuestion (dataLabel t) rows
                        in (case generateContent API_KEY fetch ANALYST_PROMPT query 3 of
                              Inl error \<Rightarrow> Inl error
                            | Inr aiResponse \<Rightarrow> Inr (''AI Assistant: '' @ aiResponse),
                            retrieval @ [GenerateContent ANALYST_PROMPT query])))))"

text \<open>Clients for the examples: an empty directory, and one with a single student.\<close>

definition empty_school :: "nat supabase_client" where
  "empty_school =
     \<lparr>students_ilike = (\<lambda>pattern. Some []),
      logs_select = (\<lambda>calls. (Some [1, 2], False)),
      JSON_stringify = (\<lambda>rows. ''[...]'')\<rparr>"

definition small_school :: "nat supabase_client" where
  "small_school =
     \<lparr>students_ilike = (\<lambda>pattern. if pattern = ''%ashraf%'' then Some [Student ''21'' None] else None),
      logs_select = (\<lambda>calls. (Some [1, 2], False)),
      JSON_stringify = (\<lambda>rows. ''[...]'')\<rparr>"

text \<open>
  The rules of the translation in the words of the specification: what the question
  mentions, whether the directory lookup of rule 3 found someone, whether rules 1 to 3
  set a filter, and the label they leave.
\<close>

definition mentions_proxy :: "string \<Rightarrow> bool" where
  "mentions_proxy q =
     (js_includes (toLowerCase q) ''proxy'' \<or> js_includes (toLowerCase q) ''proxies'')"

definition mentions_intruder :: "string \<Rightarrow> bool" where
  "mentions_intruder q =
     (js_includes (toLowerCase q) ''intruder'' \<or> js_includes (toLowerCase q) ''intruders'')"

definition mentions_today :: "string \<Rightarrow> bool" where
  "mentions_today q = js_includes (toLowerCase q) ''today''"

definition matched_students :: "'row supabase_client \<Rightarrow> string \<Rightarrow> student list" where
  "matched_students client q =
     (if mentions_student q
      then (case students_ilike client (name_pattern q) of None \<Rightarrow> [] | Some found \<Rightarrow> found)
      else [])"

definition rules_set_filter :: "'row supabase_client \<Rightarrow> string \<Rightarrow> bool" where
  "rules_set_filter client q =
     (mentions_proxy q \<or> mentions_intruder q \<or> matched_students client q \<noteq> [])"

definition rules_label :: "'row supabase_client \<Rightarrow> string \<Rightarrow> string" where
  "rules_label client q =
     (case matched_students client q of
        s # rest \<Rightarrow> template_string (student_full_name s) @ [CHR 0x27] @ ''s Activity''
      | [] \<Rightarrow>
          if mentions_intruder q then ''Intruder Sightings''
          else if mentions_proxy q then ''Proxy Attempts''
          else ''Attendance Logs'')"

section \<open>Occupancy: incremental and batch\<close>

lemma event_type_ev [simp]: "event_type (ev t) = t"
  by (simp add: ev_def)

lemma occupancy_scan_signed_sum: "occupancy_scan e logs = e + signed_sum logs"
proof (induction logs arbitrary: e)
  case Nil
  show ?case by (simp add: signed_sum_def)
next
  case (Cons r logs)
  have "occupancy_body e r + signed_sum logs = e + signed_sum (r # logs)"
    by (simp add: occupancy_body_def signed_sum_def)
  with Cons show ?case by simp
qed

lemma signed_sum_snoc:
  "signed_sum (logs @ [r]) =
     signed_sum logs + (if event_type r = ''ENTRY'' then 1 else 0)
                     - (if event_type r = ''EXIT'' then 1 else 0)"
  by (simp add: signed_sum_def)

lemma batch_eq_clamped_sum: "computeOccupancyFromLogs logs = max 0 (signed_sum logs)"
  by (simp add: computeOccupancyFromLogs_def occupancy_scan_signed_sum)

text \<open>
  C5. For every event sequence the batch computation is the signed sum of the whole
  sequence (one up per ENTRY, one down per EXIT), clamped to zero once at the end:
  the reported value is never negative. The scan itself does not clamp: on
  EXIT, EXIT, ENTRY the counter stands at \<open>-2\<close> after two rows and the final sum \<open>-1\<close>
  is reported as \<open>0\<close>, where a clamp after every row would have reported \<open>1\<close>.
\<close>

theorem batch_occupancy_final_clamp:
  "computeOccupancyFromLogs logs = max 0 (signed_sum logs)
   \<and> 0 \<le> computeOccupancyFromLogs logs
   \<and> occupancy_scan 0 [ev ''EXIT'', ev ''EXIT''] = - 2
   \<and> computeOccupancyFromLogs [ev ''EXIT'', ev ''EXIT'', ev ''ENTRY''] = 0"
  by (simp add: batch_eq_clamped_sum signed_sum_def occupancy_body_def)

text \<open>
  C1, as stated: starting from the batch value of the prior buffer, one application of
  the increment rule gives the batch value of the buffer with the event appended.
  It fails when the prior buffer holds more exits than entries: for the buffer
  EXIT, EXIT the batch value is \<open>0\<close>, the increment on ENTRY gives \<open>1\<close>, and the batch
  value of EXIT, EXIT, ENTRY is \<open>0\<close>.
\<close>

theorem incremental_vs_batch_counterexample:
  "computeDelta (computeOccupancyFromLogs [ev ''EXIT'', ev ''EXIT'']) (Some (ev ''ENTRY''))
     \<noteq> computeOccupancyFromLogs ([ev ''EXIT'', ev ''EXIT''] @ [ev ''ENTRY''])"
  by (simp add: computeDelta_def batch_eq_clamped_sum signed_sum_def)

text \<open>
  C1, amended: the increment agrees with the batch recompute exactly when the signed sum
  of the prior buffer is not negative or the new event is not an ENTRY. The order of the
  buffer does not matter to the batch value, so the same holds when the new row is put
  in front, as the live handler does.
\<close>

theorem incremental_eq_batch_iff:
  "(computeDelta (computeOccupancyFromLogs logs) (Some r)
      = computeOccupancyFromLogs (logs @ [r]))
   \<longleftrightarrow> (0 \<le> signed_sum logs \<or> event_type r \<noteq> ''ENTRY'')"
  by (auto simp: computeDelta_def batch_eq_clamped_sum signed_sum_snoc)

theorem incremental_eq_batch_iff_witness:
  "computeDelta (computeOccupancyFromLogs [ev ''ENTRY'', ev ''EXIT'', ev ''ENTRY''])
       (Some (ev ''EXIT''))
     = computeOccupancyFromLogs ([ev ''ENTRY'', ev ''EXIT'', ev ''ENTRY''] @ [ev ''EXIT''])
   \<and> 0 \<le> signed_sum [ev ''ENTRY'', ev ''EXIT'', ev ''ENTRY'']
   \<and> computeOccupancyFromLogs ([ev ''ENTRY'', ev ''EXIT'', ev ''ENTRY''] @ [ev ''EXIT'']) = 0"
proof -
  have nonneg: "0 \<le> signed_sum [ev ''ENTRY'', ev ''EXIT'', ev ''ENTRY'']"
    by (simp add: signed_sum_def)
  have "computeDelta (computeOccupancyFromLogs [ev ''ENTRY'', ev ''EXIT'', ev ''ENTRY''])
          (Some (ev ''EXIT''))
        = computeOccupancyFromLogs ([ev ''ENTRY'', ev ''EXIT'', ev ''ENTRY''] @ [ev ''EXIT''])"
    using incremental_eq_batch_iff
      [of "[ev ''ENTRY'', ev ''EXIT'', ev ''ENTRY'']" "ev ''EXIT''"] nonneg
    by blast
  moreover have
    "computeOccupancyFromLogs ([ev ''ENTRY'', ev ''EXIT'', ev ''ENTRY''] @ [ev ''EXIT'']) = 0"
    by (simp add: batch_eq_clamped_sum signed_sum_def)
  ultimately show ?thesis using nonneg by blast
qed

section \<open>The intruder-key set\<close>

lemma string_of_Some [simp]: "string_of (Some s) = s"
  by (simp add: string_of_def)

lemma scan_loop_append: "scan_loop rnd s (xs @ ys) = scan_loop rnd (scan_loop rnd s xs) ys"
  by (induction xs arbitrary: s) auto

lemma scan_body_seen_mono: "set (intruderSeen s) \<subseteq> set (intruderSeen (scan_body rnd s r))"
  by (auto simp: scan_body_def Let_def split: if_splits)

lemma scan_loop_seen_mono: "set (intruderSeen s) \<subseteq> set (intruderSeen (scan_loop rnd s logs))"
proof (induction logs arbitrary: s)
  case Nil show ?case by simp
next
  case (Cons r logs)
  show ?case using scan_body_seen_mono[of s rnd r] Cons[of "scan_body rnd s r"] by auto
qed

lemma scan_body_draws: "draws (scan_body rnd s r) = draws s + (if random_keyed r then 1 else 0)"
  by (auto simp: scan_body_def random_keyed_def Let_def)

lemma scan_loop_draws: "draws (scan_loop rnd s logs) = draws s + count_random logs"
  by (induction logs arbitrary: s) (auto simp: scan_body_draws count_random_def)

lemma scan_body_distinct: "distinct (intruderSeen s) \<Longrightarrow> distinct (intruderSeen (scan_body rnd s r))"
  by (auto simp: scan_body_def Let_def)

lemma scan_loop_distinct: "distinct (intruderSeen s) \<Longrightarrow> distinct (intruderSeen (scan_loop rnd s logs))"
  by (induction logs arbitrary: s) (auto simp: scan_body_distinct)

lemma scan_body_hasRoll: "hasRoll r \<Longrightarrow> intruderSeen (scan_body rnd s r) = intruderSeen s \<and> draws (scan_body rnd s r) = draws s"
  by (auto simp: scan_body_def Let_def)

lemma scan_body_keyless_seen:
  "\<not> hasRoll r \<Longrightarrow> set (intruderSeen (scan_body rnd s r)) =
     set (intruderSeen s) \<union> (if event_type r = ''ENTRY'' then {key_of rnd (draws s) r} else {})"
  by (auto simp: scan_body_def key_of_def Let_def)


lemma intruder_keys_distinct: "distinct (intruder_keys rnd logs)"
  by (simp add: intruder_keys_def scan_loop_distinct scan_init_def)

lemma intruderCount_eq_length:
  "intruderCount (computeUniqueInAndIntruders rnd (Some logs)) = length (intruder_keys rnd logs)"
  by (cases logs) (simp_all add: computeUniqueInAndIntruders_def intruder_keys_def Let_def scan_init_def)

lemma scan_body_agree:
  assumes "intruderSeen s = intruderSeen s'" "draws s = draws s'"
  shows "intruderSeen (scan_body rnd s r) = intruderSeen (scan_body rnd s' r)
         \<and> draws (scan_body rnd s r) = draws (scan_body rnd s' r)"
  using assms by (auto simp: scan_body_def Let_def)

lemma scan_loop_filter_keyless:
  assumes "intruderSeen s = intruderSeen s'" "draws s = draws s'"
  shows "intruderSeen (scan_loop rnd s (filter (\<lambda>r. \<not> hasRoll r) logs)) = intruderSeen (scan_loop rnd s' logs)
         \<and> draws (scan_loop rnd s (filter (\<lambda>r. \<not> hasRoll r) logs)) = draws (scan_loop rnd s' logs)"
  using assms
proof (induction logs arbitrary: s s')
  case Nil
  then show ?case by simp
next
  case (Cons r logs)
  show ?case
  proof (cases "hasRoll r")
    case True
    have "intruderSeen s = intruderSeen (scan_body rnd s' r)" "draws s = draws (scan_body rnd s' r)"
      using scan_body_hasRoll[OF True, of rnd s'] Cons.prems by simp_all
    from Cons.IH[OF this] True show ?thesis by simp
  next
    case False
    have "intruderSeen (scan_body rnd s r) = intruderSeen (scan_body rnd s' r)"
         "draws (scan_body rnd s r) = draws (scan_body rnd s' r)"
      using scan_body_agree[OF Cons.prems, of rnd r] by simp_all
    from Cons.IH[OF this] False show ?thesis by simp
  qed
qed

lemma intruder_keys_filter_keyless:
  "intruder_keys rnd (filter (\<lambda>r. \<not> hasRoll r) logs) = intruder_keys rnd logs"
  using scan_loop_filter_keyless[of scan_init scan_init rnd logs]
  by (simp add: intruder_keys_def)

lemma scan_loop_seen_origin:
  "k \<in> set (intruderSeen (scan_loop rnd s logs)) \<Longrightarrow>
     k \<in> set (intruderSeen s) \<or>
     (\<exists>r \<in> set logs. \<not> hasRoll r \<and> event_type r = ''ENTRY'' \<and> (\<exists>n. k = key_of rnd n r))"
proof (induction logs arbitrary: s)
  case Nil
  then show ?case by simp
next
  case (Cons r logs)
  from Cons.IH[of "scan_body rnd s r"] Cons.prems
  consider "k \<in> set (intruderSeen (scan_body rnd s r))"
    | "\<exists>r \<in> set logs. \<not> hasRoll r \<and> event_type r = ''ENTRY'' \<and> (\<exists>n. k = key_of rnd n r)"
    by auto
  then show ?case
  proof cases
    case 1
    show ?thesis
    proof (cases "hasRoll r")
      case True
      with 1 scan_body_hasRoll[OF True, of rnd s] show ?thesis by simp
    next
      case False
      with 1 scan_body_keyless_seen[OF False, of rnd s] show ?thesis
        by (auto split: if_splits)
    qed
  next
    case 2
    then show ?thesis by auto
  qed
qed

lemma scan_loop_entry_key_seen:
  assumes "\<not> hasRoll r" "event_type r = ''ENTRY''"
  shows "key_of rnd (draws s + count_random xs) r
           \<in> set (intruderSeen (scan_loop rnd s (xs @ r # ys)))"
proof -
  let ?s1 = "scan_loop rnd s xs"
  have "key_of rnd (draws ?s1) r \<in> set (intruderSeen (scan_body rnd ?s1 r))"
    using scan_body_keyless_seen[OF assms(1), of rnd ?s1] assms(2) by simp
  moreover have "set (intruderSeen (scan_body rnd ?s1 r))
                   \<subseteq> set (intruderSeen (scan_loop rnd (scan_body rnd ?s1 r) ys))"
    by (rule scan_loop_seen_mono)
  ultimately show ?thesis
    by (auto simp: scan_loop_append scan_loop_draws)
qed

lemma intruder_keys_entry_key:
  assumes "\<not> hasRoll r" "event_type r = ''ENTRY''"
  shows "key_of rnd (count_random xs) r \<in> set (intruder_keys rnd (xs @ r # ys))"
  using scan_loop_entry_key_seen[OF assms, of rnd scan_init xs ys]
  by (simp add: intruder_keys_def scan_init_def)

text \<open>
  C8. Over any window, the threat count is the size of the intruder-key set. Rows
  with a present roll number never contribute: dropping them from the window leaves the
  set, and so the count, as it is. Every key of the set is the key of an ENTRY row
  without a roll number, and every such row has its key in the set.
\<close>

theorem threat_count_only_keyless_entries:
  "intruderCount (computeUniqueInAndIntruders rnd (Some logs)) = card (set (intruder_keys rnd logs))
   \<and> intruder_keys rnd (filter (\<lambda>r. \<not> hasRoll r) logs) = intruder_keys rnd logs
   \<and> intruderCount (computeUniqueInAndIntruders rnd (Some (filter (\<lambda>r. \<not> hasRoll r) logs)))
       = intruderCount (computeUniqueInAndIntruders rnd (Some logs))
   \<and> (\<forall>k \<in> set (intruder_keys rnd logs).
         \<exists>r \<in> set logs. \<not> hasRoll r \<and> event_type r = ''ENTRY'' \<and> (\<exists>n. k = key_of rnd n r))
   \<and> (\<forall>xs r ys. logs = xs @ r # ys \<and> \<not> hasRoll r \<and> event_type r = ''ENTRY''
         \<longrightarrow> key_of rnd (count_random xs) r \<in> set (intruder_keys rnd logs))"
proof -
  have a: "intruderCount (computeUniqueInAndIntruders rnd (Some logs)) = card (set (intruder_keys rnd logs))"
    by (simp add: intruderCount_eq_length distinct_card intruder_keys_distinct)
  have b: "intruder_keys rnd (filter (\<lambda>r. \<not> hasRoll r) logs) = intruder_keys rnd logs"
    by (rule intruder_keys_filter_keyless)
  have c: "intruderCount (computeUniqueInAndIntruders rnd (Some (filter (\<lambda>r. \<not> hasRoll r) logs)))
       = intruderCount (computeUniqueInAndIntruders rnd (Some logs))"
    by (simp only: intruderCount_eq_length b)
  have d: "\<forall>k \<in> set (intruder_keys rnd logs).
         \<exists>r \<in> set logs. \<not> hasRoll r \<and> event_type r = ''ENTRY'' \<and> (\<exists>n. k = key_of rnd n r)"
    using scan_loop_seen_origin[of _ rnd scan_init logs]
    by (auto simp: intruder_keys_def scan_init_def)
  have e: "\<forall>xs r ys. logs = xs @ r # ys \<and> \<not> hasRoll r \<and> event_type r = ''ENTRY''
         \<longrightarrow> key_of rnd (count_random xs) r \<in> set (intruder_keys rnd logs)"
    using intruder_keys_entry_key by blast
  from a b c d e show ?thesis by blast
qed


theorem threat_count_only_keyless_entries_witness:
  "intruder_keys sample_draws
     [known ''21'' ''ENTRY'', sighting ''ENTRY'' (Some ''2025-01-01T09:00:00'') None,
      sighting ''EXIT'' None None, sighting ''ENTRY'' None None]
     = [KStr ''2025-01-01T09:00:00'', KNum (1 / 2)]
   \<and> intruderCount (computeUniqueInAndIntruders sample_draws (Some
       [known ''21'' ''ENTRY'', sighting ''ENTRY'' (Some ''2025-01-01T09:00:00'') None,
        sighting ''EXIT'' None None, sighting ''ENTRY'' None None])) = 2
   \<and> intruderCount (computeUniqueInAndIntruders sample_draws (Some
       (filter (\<lambda>r. \<not> hasRoll r)
         [known ''21'' ''ENTRY'', sighting ''ENTRY'' (Some ''2025-01-01T09:00:00'') None,
          sighting ''EXIT'' None None, sighting ''ENTRY'' None None]))) = 2
   \<and> (\<exists>r \<in> set [known ''21'' ''ENTRY'', sighting ''ENTRY'' (Some ''2025-01-01T09:00:00'') None,
                 sighting ''EXIT'' None None, sighting ''ENTRY'' None None].
         \<not> hasRoll r \<and> event_type r = ''ENTRY'' \<and> (\<exists>n. KNum (1 / 2) = key_of sample_draws n r))"
proof -
  let ?L = "[known ''21'' ''ENTRY'', sighting ''ENTRY'' (Some ''2025-01-01T09:00:00'') None,
             sighting ''EXIT'' None None, sighting ''ENTRY'' None None]"
  note t = threat_count_only_keyless_entries[of sample_draws ?L]
  have keys: "intruder_keys sample_draws ?L = [KStr ''2025-01-01T09:00:00'', KNum (1 / 2)]"
    by (simp add: intruder_keys_def scan_init_def scan_body_def hasRoll_def trim_def is_space_def
        truthy_def known_def sighting_def sample_draws_def)
  have n: "intruderCount (computeUniqueInAndIntruders sample_draws (Some ?L)) = 2"
    using t keys by simp
  have f: "intruderCount (computeUniqueInAndIntruders sample_draws
             (Some (filter (\<lambda>r. \<not> hasRoll r) ?L))) = 2"
    using t n by presburger
  have "KNum (1 / 2) \<in> set (intruder_keys sample_draws ?L)"
    by (simp add: keys)
  with t have "\<exists>r \<in> set ?L. \<not> hasRoll r \<and> event_type r = ''ENTRY''
                 \<and> (\<exists>n. KNum (1 / 2) = key_of sample_draws n r)"
    by blast
  with keys n f show ?thesis by blast
qed

text \<open>
  C2, as stated: two ENTRY rows without roll number and without evidence URL whose
  timestamps are equal count as two intruders. When the equal timestamps are present,
  the timestamp is the key of both rows, the second row finds it in the set, and the
  threat count is one.
\<close>

theorem equal_timestamps_share_key_counterexample:
  "intruder_keys sample_draws
     [sighting ''ENTRY'' (Some ''2025-01-01T09:00:00'') None,
      sighting ''ENTRY'' (Some ''2025-01-01T09:00:00'') None]
     = [KStr ''2025-01-01T09:00:00'']
   \<and> intruderCount (computeUniqueInAndIntruders sample_draws (Some
       [sighting ''ENTRY'' (Some ''2025-01-01T09:00:00'') None,
        sighting ''ENTRY'' (Some ''2025-01-01T09:00:00'') None])) = 1"
  by (simp add: computeUniqueInAndIntruders_def intruder_keys_def scan_init_def scan_body_def
      hasRoll_def truthy_def sighting_def)

lemma key_of_random_keyed: "random_keyed r \<Longrightarrow> key_of rnd n r = KNum (rnd n)"
  by (simp add: random_keyed_def key_of_def)

text \<open>
  C2, amended: two ENTRY rows without roll number, without evidence URL and both
  without timestamp, anywhere in the window, each put a key of their own into the
  intruder-key set, and the threat count counts both, provided the two random numbers
  drawn for them differ. The first row draws random number \<open>count_random xs\<close>, the
  second the one after those drawn between them.
\<close>

theorem absent_timestamps_distinct_intruders:
  assumes "random_keyed a" and "event_type a = ''ENTRY''"
      and "random_keyed b" and "event_type b = ''ENTRY''"
      and "rnd (count_random xs) \<noteq> rnd (Suc (count_random xs + count_random ys))"
  shows "KNum (rnd (count_random xs)) \<in> set (intruder_keys rnd (xs @ a # ys @ b # zs))
       \<and> KNum (rnd (Suc (count_random xs + count_random ys)))
           \<in> set (intruder_keys rnd (xs @ a # ys @ b # zs))
       \<and> KNum (rnd (count_random xs)) \<noteq> KNum (rnd (Suc (count_random xs + count_random ys)))
       \<and> 2 \<le> intruderCount (computeUniqueInAndIntruders rnd (Some (xs @ a # ys @ b # zs)))"
proof -
  let ?L = "xs @ a # ys @ b # zs"
  let ?ka = "KNum (rnd (count_random xs))"
  let ?kb = "KNum (rnd (Suc (count_random xs + count_random ys)))"
  have ra: "\<not> hasRoll a" and rb: "\<not> hasRoll b"
    using assms(1,3) by (simp_all add: random_keyed_def)
  have ka: "?ka \<in> set (intruder_keys rnd ?L)"
    using intruder_keys_entry_key[OF ra assms(2), of rnd xs "ys @ b # zs"]
    by (simp add: key_of_random_keyed[OF assms(1)])
  have cnt: "count_random (xs @ a # ys) = Suc (count_random xs + count_random ys)"
    using assms(1) by (simp add: count_random_def)
  have kb: "?kb \<in> set (intruder_keys rnd ?L)"
    using intruder_keys_entry_key[OF rb assms(4), of rnd "xs @ a # ys" zs]
    by (simp add: key_of_random_keyed[OF assms(3)] cnt)
  have "card {?ka, ?kb} \<le> card (set (intruder_keys rnd ?L))"
    using ka kb by (intro card_mono) auto
  moreover have "card {?ka, ?kb} = 2"
    using assms(5) by simp
  ultimately have two: "2 \<le> intruderCount (computeUniqueInAndIntruders rnd (Some ?L))"
    by (simp add: intruderCount_eq_length distinct_card intruder_keys_distinct)
  from ka kb two assms(5) show ?thesis by simp
qed

theorem absent_timestamps_distinct_intruders_witness:
  "random_keyed (sighting ''ENTRY'' None None)
   \<and> sample_draws (count_random []) \<noteq> sample_draws (Suc (count_random [] + count_random []))
   \<and> KNum (sample_draws 0)
        \<in> set (intruder_keys sample_draws [sighting ''ENTRY'' None None, sighting ''ENTRY'' None None])
   \<and> KNum (sample_draws 1)
        \<in> set (intruder_keys sample_draws [sighting ''ENTRY'' None None, sighting ''ENTRY'' None None])
   \<and> 2 \<le> intruderCount (computeUniqueInAndIntruders sample_draws
            (Some [sighting ''ENTRY'' None None, sighting ''ENTRY'' None None]))"
proof -
  have rk: "random_keyed (sighting ''ENTRY'' None None)"
    by (simp add: random_keyed_def hasRoll_def truthy_def sighting_def)
  have et: "event_type (sighting ''ENTRY'' None None) = ''ENTRY''"
    by (simp add: sighting_def)
  have ne: "sample_draws (count_random []) \<noteq> sample_draws (Suc (count_random [] + count_random []))"
    by (simp add: sample_draws_def count_random_def)
  from absent_timestamps_distinct_intruders[OF rk et rk et ne, of "[]"] rk ne
  show ?thesis by (simp add: count_random_def)
qed

section \<open>Attendance: pairing, totals and formatting\<close>

lemma pairing_loop_append:
  "pairing_loop s (xs @ ys) = pairing_loop (pairing_loop s xs) ys"
  by (induction xs arbitrary: s) auto

lemma elapsed_minutes_pos: "js_gt a b \<Longrightarrow> 0 < elapsed_minutes a b"
  by (cases a; cases b) auto

lemma pairing_body_mono: "fst s \<le> fst (pairing_body s row)"
  using elapsed_minutes_pos
  by (cases s) (auto split: option.splits simp: less_imp_le)

lemma pairing_loop_mono: "fst s \<le> fst (pairing_loop s logs)"
proof (induction logs arbitrary: s)
  case Nil
  show ?case by simp
next
  case (Cons row logs)
  have "fst s \<le> fst (pairing_body s row)" by (rule pairing_body_mono)
  also have "\<dots> \<le> fst (pairing_loop (pairing_body s row) logs)" by (rule Cons.IH)
  finally show ?case by simp
qed

lemma totalDurationMinutes_nonneg: "0 \<le> totalDurationMinutes logs"
  using pairing_loop_mono[of "(0, None)" logs] by (simp add: totalDurationMinutes_def)

lemma percentage_value_range:
  "0 \<le> mins \<Longrightarrow> 0 \<le> percentage_value mins \<and> percentage_value mins \<le> 100"
  by (simp add: percentage_value_def TOTAL_SCHEDULED_MINUTES_def)

text \<open>
  C9. The total of minutes never goes down when more rows are appended to a history,
  whatever the rows are, so in particular when they are valid ENTRY/EXIT pairs; the
  percentage \<open>min(100, total / 480 * 100)\<close> lies between 0 and 100 and does not go down
  either. For a history that is not empty, these are the total and the percentage the
  calculator prints.
\<close>

theorem duration_monotone_percentage_bounded:
  "totalDurationMinutes logs \<le> totalDurationMinutes (logs @ later)
   \<and> 0 \<le> percentage_value (totalDurationMinutes logs)
   \<and> percentage_value (totalDurationMinutes logs) \<le> 100
   \<and> percentage_value (totalDurationMinutes logs)
       \<le> percentage_value (totalDurationMinutes (logs @ later))
   \<and> (logs \<noteq> [] \<longrightarrow>
        calculateStudentAttendance True ''21'' (Rows (Some logs))
          = \<lparr>duration = durationString (totalDurationMinutes logs),
             percentage = toFixed1 (percentage_value (totalDurationMinutes logs)) @ ''%''\<rparr>)"
proof -
  have r: "calculateStudentAttendance True ''21'' (Rows (Some logs))
          = \<lparr>duration = durationString (totalDurationMinutes logs),
             percentage = toFixed1 (percentage_value (totalDurationMinutes logs)) @ ''%''\<rparr>"
    if "logs \<noteq> []"
    using that by (cases logs) (simp_all add: calculateStudentAttendance_def Let_def)
  have m: "totalDurationMinutes logs \<le> totalDurationMinutes (logs @ later)"
    using pairing_loop_mono[of "pairing_loop (0, None) logs" later]
    by (simp add: totalDurationMinutes_def pairing_loop_append)
  have p: "percentage_value (totalDurationMinutes logs)
             \<le> percentage_value (totalDurationMinutes (logs @ later))"
    using m by (simp add: percentage_value_def TOTAL_SCHEDULED_MINUTES_def min_le_iff_disj)
  from m p r percentage_value_range[OF totalDurationMinutes_nonneg[of logs]]
  show ?thesis by blast
qed

theorem duration_monotone_percentage_bounded_witness:
  "totalDurationMinutes [entry_at (TimeValue 0), exit_at (TimeValue 600000)] = 10
   \<and> totalDurationMinutes ([entry_at (TimeValue 0), exit_at (TimeValue 600000)]
         @ [entry_at (TimeValue 900000), exit_at (TimeValue 1800000)]) = 25
   \<and> (10::rat) \<le> 25
   \<and> percentage_value (totalDurationMinutes [entry_at (TimeValue 0), exit_at (TimeValue 600000)])
       \<le> 100
   \<and> percentage (calculateStudentAttendance True ''21''
         (Rows (Some [entry_at (TimeValue 0), exit_at (TimeValue 600000)]))) = ''2.1%''"
proof -
  have c: "toFixed1 (percentage_value 10) = ''2.1''"
    by code_simp
  have a: "totalDurationMinutes [entry_at (TimeValue 0), exit_at (TimeValue 600000)] = 10"
    by (simp add: totalDurationMinutes_def entry_at_def exit_at_def)
  have b: "totalDurationMinutes ([entry_at (TimeValue 0), exit_at (TimeValue 600000)]
         @ [entry_at (TimeValue 900000), exit_at (TimeValue 1800000)]) = 25"
    by (simp add: totalDurationMinutes_def entry_at_def exit_at_def)
  from duration_monotone_percentage_bounded
    [of "[entry_at (TimeValue 0), exit_at (TimeValue 600000)]"
        "[entry_at (TimeValue 900000), exit_at (TimeValue 1800000)]"]
  show ?thesis unfolding a b using c by simp
qed

lemma durationString_30: "durationString 30 = ''0h 30m''"
  by code_simp

text \<open>
  C4. The loop pairs entries and exits as a two-state machine. An ENTRY while an entry
  is open changes nothing; an ENTRY with none open opens one; an EXIT with none open
  changes nothing; an EXIT while an entry is open closes it and adds the elapsed
  minutes when its time is strictly later, and changes nothing otherwise (also when
  either time is no date). Appending an ENTRY to any history leaves the total as it
  is, and appending an ENTRY/EXIT pair adds the minutes of the session the EXIT
  closes, if it closes one. The history ENTRY 09:00, ENTRY 09:05, EXIT 09:30 (on any
  day \<open>d\<close>) is one session of 30 minutes, printed as \<open>0h 30m\<close>.
\<close>

theorem pairing_state_machine:
  "pairing_body (m, Some e) (entry_at t) = (m, Some e)
   \<and> pairing_body (m, None) (entry_at t) = (m, Some t)
   \<and> pairing_body (m, None) (exit_at t) = (m, None)
   \<and> pairing_body (m, Some (TimeValue a)) (exit_at (TimeValue b))
       = (if a < b then (m + of_int (b - a) / 60000, None) else (m, Some (TimeValue a)))
   \<and> pairing_body (m, Some e) (exit_at NaN) = (m, Some e)
   \<and> pairing_body (m, Some NaN) (exit_at t) = (m, Some NaN)
   \<and> totalDurationMinutes (logs @ [entry_at t]) = totalDurationMinutes logs
   \<and> totalDurationMinutes (logs @ [entry_at (TimeValue a), exit_at (TimeValue b)])
       = totalDurationMinutes logs
         + (case open_entry logs of
              None \<Rightarrow> if a < b then of_int (b - a) / 60000 else 0
            | Some NaN \<Rightarrow> 0
            | Some (TimeValue c) \<Rightarrow> if c < b then of_int (b - c) / 60000 else 0)
   \<and> totalDurationMinutes
        [entry_at (TimeValue (d + 32400000)), entry_at (TimeValue (d + 32700000)),
         exit_at (TimeValue (d + 34200000))] = 30
   \<and> duration (calculateStudentAttendance True ''21'' (Rows (Some
        [entry_at (TimeValue (d + 32400000)), entry_at (TimeValue (d + 32700000)),
         exit_at (TimeValue (d + 34200000))]))) = ''0h 30m''"
proof -
  have trailing: "totalDurationMinutes (logs @ [entry_at t]) = totalDurationMinutes logs"
    by (cases "pairing_loop (0, None) logs")
       (simp add: totalDurationMinutes_def pairing_loop_append entry_at_def)
  have pair: "totalDurationMinutes (logs @ [entry_at (TimeValue a), exit_at (TimeValue b)])
       = totalDurationMinutes logs
         + (case open_entry logs of
              None \<Rightarrow> if a < b then of_int (b - a) / 60000 else 0
            | Some NaN \<Rightarrow> 0
            | Some (TimeValue c) \<Rightarrow> if c < b then of_int (b - c) / 60000 else 0)"
  proof (cases "pairing_loop (0, None) logs")
    case (Pair m0 e0)
    then show ?thesis
      by (cases e0)
         (auto simp: totalDurationMinutes_def open_entry_def pairing_loop_append entry_at_def
            exit_at_def split: time_value.splits)
  qed
  have ex: "totalDurationMinutes
        [entry_at (TimeValue (d + 32400000)), entry_at (TimeValue (d + 32700000)),
         exit_at (TimeValue (d + 34200000))] = 30"
    by (simp add: totalDurationMinutes_def entry_at_def exit_at_def)
  have str: "duration (calculateStudentAttendance True ''21'' (Rows (Some
        [entry_at (TimeValue (d + 32400000)), entry_at (TimeValue (d + 32700000)),
         exit_at (TimeValue (d + 34200000))]))) = ''0h 30m''"
    by (simp add: calculateStudentAttendance_def ex durationString_30)
  have nan1: "pairing_body (m, Some e) (exit_at NaN) = (m, Some e)"
    by (cases e) (simp_all add: exit_at_def)
  have nan2: "pairing_body (m, Some NaN) (exit_at t) = (m, Some NaN)"
    by (cases t) (simp_all add: exit_at_def)
  have steps: "pairing_body (m, Some e) (entry_at t) = (m, Some e)
     \<and> pairing_body (m, None) (entry_at t) = (m, Some t)
     \<and> pairing_body (m, None) (exit_at t) = (m, None)
     \<and> pairing_body (m, Some (TimeValue a)) (exit_at (TimeValue b))
         = (if a < b then (m + of_int (b - a) / 60000, None) else (m, Some (TimeValue a)))"
    by (simp add: entry_at_def exit_at_def)
  from steps nan1 nan2 trailing pair ex str show ?thesis by blast
qed

theorem pairing_state_machine_witness:
  "pairing_body (0, Some (TimeValue 32400000)) (entry_at (TimeValue 32700000))
     = (0, Some (TimeValue 32400000))
   \<and> pairing_body (0, Some (TimeValue 32400000)) (exit_at (TimeValue 34200000)) = (30, None)
   \<and> pairing_body (0, Some (TimeValue 32400000)) (exit_at (TimeValue 32400000))
     = (0, Some (TimeValue 32400000))
   \<and> duration (calculateStudentAttendance True ''21'' (Rows (Some
        [entry_at (TimeValue 32400000), entry_at (TimeValue 32700000),
         exit_at (TimeValue 34200000)]))) = ''0h 30m''"
proof -
  note t1 = pairing_state_machine
    [of 0 "TimeValue 32400000" "TimeValue 32700000" 32400000 34200000 "[]" 0]
  note t2 = pairing_state_machine
    [of 0 "TimeValue 32400000" "TimeValue 32700000" 32400000 32400000 "[]" 0]
  from t1 t2 show ?thesis by simp
qed

text \<open>
  C10. The minutes of the duration string are rounded on their own, after the hours have
  been floored: a history of one session of 119.5 minutes is printed as \<open>1h 60m\<close>.
  So the minutes component of a non-empty valid history is not always below 60.
\<close>

theorem minutes_component_can_be_60:
  "totalDurationMinutes [entry_at (TimeValue 0), exit_at (TimeValue 7170000)] = 239 / 2
   \<and> hours_of (239 / 2) = 1
   \<and> minutes_of (239 / 2) = 60
   \<and> calculateStudentAttendance True ''21''
        (Rows (Some [entry_at (TimeValue 0), exit_at (TimeValue 7170000)]))
       = \<lparr>duration = ''1h 60m'', percentage = ''24.9%''\<rparr>
   \<and> (\<exists>logs. logs \<noteq> [] \<and> minutes_of (totalDurationMinutes logs) = 60)"
proof -
  have a: "totalDurationMinutes [entry_at (TimeValue 0), exit_at (TimeValue 7170000)] = 239 / 2"
    by (simp add: totalDurationMinutes_def entry_at_def exit_at_def)
  have h: "hours_of (239 / 2) = 1"
    by code_simp
  have m: "minutes_of (239 / 2) = 60"
    by code_simp
  have c: "calculateStudentAttendance True ''21''
        (Rows (Some [entry_at (TimeValue 0), exit_at (TimeValue 7170000)]))
       = \<lparr>duration = ''1h 60m'', percentage = ''24.9%''\<rparr>"
    by code_simp
  have "[entry_at (TimeValue 0), exit_at (TimeValue 7170000)] \<noteq> []
        \<and> minutes_of (totalDurationMinutes [entry_at (TimeValue 0), exit_at (TimeValue 7170000)]) = 60"
    by (simp add: a m)
  then have "\<exists>logs. logs \<noteq> [] \<and> minutes_of (totalDurationMinutes logs) = 60"
    by blast
  with a h m c show ?thesis by blast
qed

theorem minutes_component_can_be_60_witness:
  "\<not> (\<forall>logs. minutes_of (totalDurationMinutes logs) < 60)
   \<and> duration (calculateStudentAttendance True ''21''
        (Rows (Some [entry_at (TimeValue 0), exit_at (TimeValue 7170000)]))) = ''1h 60m''"
proof -
  from minutes_component_can_be_60
  obtain logs where "minutes_of (totalDurationMinutes logs) = 60" by blast
  then have "\<not> minutes_of (totalDurationMinutes logs) < 60" by simp
  then have "\<not> (\<forall>logs. minutes_of (totalDurationMinutes logs) < 60)" by blast
  with minutes_component_can_be_60 show ?thesis by simp
qed

section \<open>The generative client: results\<close>

lemma loop_body_no_throw: "loop_body attempt maxRetries outcome \<noteq> Throw e"
  by (simp add: loop_body_def catch_block_def split: flow.splits)

lemma attempts_no_throw: "attempts fetch maxRetries attempt \<noteq> Throw e"
proof (induction fetch maxRetries attempt rule: attempts.induct)
  case (1 fetch maxRetries attempt)
  show ?case
  proof (cases "loop_body attempt maxRetries (fetch attempt)")
    case (Return s)
    then show ?thesis by (simp add: attempts.simps[of fetch maxRetries attempt])
  next
    case (Throw err)
    then show ?thesis using loop_body_no_throw by blast
  next
    case Next
    then show ?thesis
      using 1 by (simp add: attempts.simps[of fetch maxRetries attempt])
  qed
qed

lemma generateContent_returns: "\<exists>s. generateContent API_KEY fetch sys q maxRetries = Inr s"
  using attempts_no_throw[of fetch maxRetries 0]
  by (auto simp: generateContent_def split: flow.splits)

lemma loop_body_failure:
  "success_text outcome = None \<Longrightarrow>
     loop_body attempt maxRetries outcome =
       (if rate_limited outcome \<or> int attempt \<noteq> maxRetries - 1 then Next
        else Return retries_message)"
  by (auto simp: success_text_def loop_body_def catch_block_def rate_limited_def try_block_def
      split: flow.splits fetch_outcome.splits body_outcome.splits if_splits)

lemma loop_body_success:
  "success_text outcome = Some t \<Longrightarrow> loop_body attempt maxRetries outcome = Return t"
  by (auto simp: success_text_def loop_body_def split: flow.splits)

lemma attempts_first_success:
  assumes "int k < maxRetries" "success_text (fetch k) = Some t"
      and "\<forall>i. a \<le> i \<and> i < k \<longrightarrow> success_text (fetch i) = None" "a \<le> k"
  shows "attempts fetch maxRetries a = Return t"
  using assms
proof (induction "k - a" arbitrary: a)
  case 0
  then have "a = k" by simp
  with 0 show ?case
    by (simp add: attempts.simps[of fetch maxRetries k] loop_body_success)
next
  case (Suc n)
  then have lt: "a < k" by simp
  then have "success_text (fetch a) = None" using Suc.prems by simp
  then have "loop_body a maxRetries (fetch a) = Next"
    using lt Suc.prems(1) by (simp add: loop_body_failure)
  moreover have "attempts fetch maxRetries (Suc a) = Return t"
    using Suc lt by (intro Suc.hyps(1)) auto
  ultimately show ?case
    using lt Suc.prems(1) by (simp add: attempts.simps[of fetch maxRetries a])
qed

lemma attempts_all_fail:
  assumes "\<forall>i. a \<le> i \<and> int i < maxRetries \<longrightarrow> success_text (fetch i) = None"
      and "int a < maxRetries"
  shows "attempts fetch maxRetries a =
           (if rate_limited (fetch (nat (maxRetries - 1))) then Next
            else Return retries_message)"
  using assms
proof (induction fetch maxRetries a rule: attempts.induct)
  case (1 fetch maxRetries attempt)
  have f: "success_text (fetch attempt) = None" using "1.prems" by simp
  show ?case
  proof (cases "int attempt = maxRetries - 1")
    case True
    then have "nat (maxRetries - 1) = attempt" by simp
    moreover have "attempts fetch maxRetries (Suc attempt) = Next"
      using True by (simp add: attempts.simps[of fetch maxRetries "Suc attempt"])
    ultimately show ?thesis
      using True "1.prems"(2) loop_body_failure[OF f, of attempt maxRetries]
      by (simp add: attempts.simps[of fetch maxRetries attempt])
  next
    case False
    then have lb: "loop_body attempt maxRetries (fetch attempt) = Next"
      using loop_body_failure[OF f, of attempt maxRetries] by simp
    have "attempts fetch maxRetries (attempt + 1) =
           (if rate_limited (fetch (nat (maxRetries - 1))) then Next
            else Return retries_message)"
      using "1.prems" False lb by (intro "1.IH") auto
    then show ?thesis
      using "1.prems"(2) lb by (simp add: attempts.simps[of fetch maxRetries attempt])
  qed
qed

lemma rate_limited_no_success: "rate_limited outcome \<Longrightarrow> success_text outcome = None"
  by (auto simp: rate_limited_def success_text_def try_block_def split: fetch_outcome.splits)

lemma success_text_iff:
  "success_text outcome = Some t \<longleftrightarrow>
     (\<exists>status. outcome = Response status (Body (Some t)) \<and> response_ok status \<and> t \<noteq> [])"
  by (cases outcome)
     (auto simp: success_text_def try_block_def truthy_def response_ok_def
        split: body_outcome.splits option.splits)

text \<open>
  C3. For every role instruction, query, retry bound and behaviour of the network,
  \<open>generateContent\<close> returns a string and lets no exception out. Without the API key
  it returns the fixed offline message. With the key and the default of three
  attempts: when no attempt succeeds with a non-empty text field it returns a fixed
  error message (the one after the loop when the last attempt was rate limited, the one
  of the handler otherwise), so three responses 429 in a row give the message after the
  loop; and the first attempt that succeeds with a non-empty text field returns that
  text, whatever later calls would have met. An attempt succeeds exactly when the
  response is ok and its text field is a non-empty string.
\<close>

theorem generateContent_never_throws:
  "(\<exists>s. generateContent API_KEY fetch sys q maxRetries = Inr s)
   \<and> generateContent [] fetch sys q maxRetries = Inr offline_message
   \<and> (API_KEY \<noteq> [] \<and> (\<forall>i<3. success_text (fetch i) = None) \<longrightarrow>
        generateContent API_KEY fetch sys q 3
          = Inr (if rate_limited (fetch 2) then failed_message else retries_message))
   \<and> (API_KEY \<noteq> [] \<and> (\<forall>i<3. rate_limited (fetch i)) \<longrightarrow>
        generateContent API_KEY fetch sys q 3 = Inr failed_message)
   \<and> (API_KEY \<noteq> [] \<and> k < 3 \<and> (\<forall>i<k. success_text (fetch i) = None)
        \<and> success_text (fetch k) = Some t \<longrightarrow>
        generateContent API_KEY fetch sys q 3 = Inr t)
   \<and> (success_text outcome = Some t \<longleftrightarrow>
        (\<exists>status. outcome = Response status (Body (Some t)) \<and> response_ok status \<and> t \<noteq> []))"
proof -
  have never: "\<exists>s. generateContent API_KEY fetch sys q maxRetries = Inr s"
    by (rule generateContent_returns)
  have offline: "generateContent [] fetch sys q maxRetries = Inr offline_message"
    by (simp add: generateContent_def)
  have exhausted: "generateContent API_KEY fetch sys q 3
          = Inr (if rate_limited (fetch 2) then failed_message else retries_message)"
    if "API_KEY \<noteq> []" "\<forall>i<3. success_text (fetch i) = None"
  proof -
    have "attempts fetch 3 0 =
            (if rate_limited (fetch (nat (3 - 1))) then Next else Return retries_message)"
      using that(2) by (intro attempts_all_fail) auto
    then show ?thesis using that(1) by (simp add: generateContent_def)
  qed
  have limited: "generateContent API_KEY fetch sys q 3 = Inr failed_message"
    if "API_KEY \<noteq> []" "\<forall>i<3. rate_limited (fetch i)"
  proof -
    have "\<forall>i<3. success_text (fetch i) = None"
      using that(2) rate_limited_no_success by blast
    from exhausted[OF that(1) this] that(2) show ?thesis by simp
  qed
  have first: "generateContent API_KEY fetch sys q 3 = Inr t"
    if "API_KEY \<noteq> []" "k < 3" "\<forall>i<k. success_text (fetch i) = None"
       "success_text (fetch k) = Some t"
  proof -
    have "attempts fetch 3 0 = Return t"
      using that by (intro attempts_first_success[of k]) auto
    then show ?thesis using that(1) by (simp add: generateContent_def)
  qed
  from never offline exhausted limited first success_text_iff[of outcome t]
  show ?thesis by blast
qed

theorem generateContent_never_throws_witness:
  "generateContent ''key'' always_429 ''role'' ''query'' 3 = Inr failed_message
   \<and> generateContent ''key'' always_empty ''role'' ''query'' 3 = Inr retries_message
   \<and> generateContent ''key'' third_time_lucky ''role'' ''query'' 3
       = Inr ''Two proxy attempts were logged today.''
   \<and> generateContent [] third_time_lucky ''role'' ''query'' 3 = Inr offline_message"
proof -
  have k: "''key'' \<noteq> []" by simp
  have r: "\<forall>i<3. rate_limited (always_429 i)"
    by (simp add: rate_limited_def always_429_def)
  have e: "\<forall>i<3. success_text (always_empty i) = None"
    by (simp add: success_text_def try_block_def always_empty_def response_ok_def truthy_def)
  have e2: "\<not> rate_limited (always_empty 2)"
    by (simp add: rate_limited_def always_empty_def)
  have l: "(2::nat) < 3 \<and> (\<forall>i<2. success_text (third_time_lucky i) = None)
           \<and> success_text (third_time_lucky 2) = Some ''Two proxy attempts were logged today.''"
    by (auto simp: success_text_def try_block_def third_time_lucky_def response_ok_def truthy_def)
  have a: "generateContent ''key'' always_429 ''role'' ''query'' 3 = Inr failed_message"
    using generateContent_never_throws[of "''key''" always_429 "''role''" "''query''" 3] k r
    by blast
  have b: "generateContent ''key'' always_empty ''role'' ''query'' 3 = Inr retries_message"
    using generateContent_never_throws[of "''key''" always_empty "''role''" "''query''" 3] k e e2
    by simp
  have c: "generateContent ''key'' third_time_lucky ''role'' ''query'' 3
       = Inr ''Two proxy attempts were logged today.''"
    using generateContent_never_throws[of "''key''" third_time_lucky "''role''" "''query''" 3 2
        "''Two proxy attempts were logged today.''"] k l
    by blast
  have d: "generateContent [] third_time_lucky ''role'' ''query'' 3 = Inr offline_message"
    using generateContent_never_throws[of "''key''" third_time_lucky "''role''" "''query''" 3]
    by blast
  from a b c d show ?thesis by blast
qed

section \<open>The question analysis: results\<close>

lemma proxies_today_mentions:
  "mentions_proxy ''how many proxies today'' \<and> \<not> mentions_intruder ''how many proxies today''
   \<and> \<not> mentions_student ''how many proxies today'' \<and> mentions_today ''how many proxies today''"
  by code_simp

lemmas check_proxies_alt = check_proxies_def[folded mentions_proxy_def]
lemmas check_intruders_alt = check_intruders_def[folded mentions_intruder_def]
lemmas time_constraint_alt = time_constraint_def[folded mentions_today_def]

lemma after_rules_1_2:
  "check_intruders q (check_proxies q translation_init) =
     \<lparr>queryBuilder = (if mentions_proxy q then [Eq ''is_spoof'' True] else [])
                      @ (if mentions_intruder q then [IsNull ''roll_no''] else []),
      dataLabel = (if mentions_intruder q then ''Intruder Sightings''
                   else if mentions_proxy q then ''Proxy Attempts'' else ''Attendance Logs''),
      filterApplied = (mentions_proxy q \<or> mentions_intruder q)\<rparr>"
  by (simp add: check_proxies_alt check_intruders_alt translation_init_def)


lemma check_student_cases:
  "check_student client q t =
     (case matched_students client q of
        s # rest \<Rightarrow>
          Inr (t\<lparr>queryBuilder := queryBuilder t @ [In ''roll_no'' (map student_roll_no (s # rest))],
                 dataLabel := template_string (student_full_name s) @ [CHR 0x27] @ ''s Activity'',
                 filterApplied := True\<rparr>)
      | [] \<Rightarrow>
          if mentions_student q \<and> \<not> filterApplied t
          then Inl (not_found_message (namePart q)) else Inr t)"
  by (simp add: check_student_def matched_students_def split: option.splits list.splits)

lemma translate_not_found:
  assumes "mentions_student q" "\<not> rules_set_filter client q"
  shows "translate client today q = Inl (not_found_message (namePart q))"
proof -
  from assms(2) have m: "matched_students client q = []"
    and f: "\<not> (mentions_proxy q \<or> mentions_intruder q)"
    by (simp_all add: rules_set_filter_def)
  show ?thesis
    unfolding translate_def after_rules_1_2 check_student_cases m
    using assms(1) f by simp
qed

lemma translate_found:
  assumes "\<not> mentions_student q \<or> rules_set_filter client q"
  shows "translate client today q =
     Inr \<lparr>queryBuilder =
            (if mentions_proxy q then [Eq ''is_spoof'' True] else [])
            @ (if mentions_intruder q then [IsNull ''roll_no''] else [])
            @ (if matched_students client q \<noteq> []
               then [In ''roll_no'' (map student_roll_no (matched_students client q))] else [])
            @ (if \<not> rules_set_filter client q \<or> mentions_today q
               then [Gte ''timestamp'' today] else []),
          dataLabel = rules_label client q
            @ (if \<not> rules_set_filter client q \<or> mentions_today q then '' (Today)'' else []),
          filterApplied = rules_set_filter client q\<rparr>"
proof (cases "matched_students client q")
  case Nil
  with assms have "\<not> mentions_student q \<or> mentions_proxy q \<or> mentions_intruder q"
    by (auto simp: rules_set_filter_def)
  then show ?thesis
    unfolding translate_def after_rules_1_2 check_student_cases Nil
    by (simp add: time_constraint_alt rules_set_filter_def rules_label_def Nil)
next
  case (Cons s rest)
  show ?thesis
    unfolding translate_def after_rules_1_2 check_student_cases Cons
    by (simp add: time_constraint_alt rules_set_filter_def rules_label_def Cons)
qed

lemma ashraf_today_mentions:
  "mentions_student ''what did Ashraf do today'' \<and> mentions_today ''what did Ashraf do today''
   \<and> \<not> mentions_proxy ''what did Ashraf do today''
   \<and> \<not> mentions_intruder ''what did Ashraf do today''
   \<and> namePart ''what did Ashraf do today'' = ''ashraf''
   \<and> name_pattern ''what did Ashraf do today'' = ''%ashraf%''"
  by code_simp

text \<open>
  C6, as stated: the call \<open>gte("timestamp", today)\<close> and the suffix \<open>(Today)\<close> are
  added exactly when the rules 1 to 3 set no filter or the question mentions \<open>today\<close>.
  The question \<open>what did Ashraf do today\<close> mentions \<open>today\<close>, and with a directory
  that knows no Ashraf the rules 1 to 3 set no filter; yet rule 3 returns the
  \<open>not found\<close> reply before the time constraint is reached: no filter and no label are
  produced, and the logs are never queried.
\<close>

theorem today_rule_short_circuit_counterexample:
  "mentions_today ''what did Ashraf do today''
   \<and> \<not> rules_set_filter empty_school ''what did Ashraf do today''
   \<and> translate empty_school ''2025-01-01'' ''what did Ashraf do today''
       = Inl (not_found_message ''ashraf'')
   \<and> runRAGAnalysis ''key'' third_time_lucky ''2025-01-01'' (Some empty_school)
        ''what did Ashraf do today''
       = (Inr (not_found_message ''ashraf''), [StudentsQuery ''%ashraf%''])"
proof -
  let ?q = "''what did Ashraf do today''"
  have nf: "\<not> rules_set_filter empty_school ?q"
    using ashraf_today_mentions
    by (simp add: rules_set_filter_def matched_students_def empty_school_def)
  have tr: "translate empty_school ''2025-01-01'' ?q = Inl (not_found_message ''ashraf'')"
    using translate_not_found[of ?q empty_school "''2025-01-01''"] ashraf_today_mentions nf
    by simp
  have run: "runRAGAnalysis ''key'' third_time_lucky ''2025-01-01'' (Some empty_school) ?q
       = (Inr (not_found_message ''ashraf''), [StudentsQuery ''%ashraf%''])"
    using ashraf_today_mentions by (simp add: runRAGAnalysis_def tr lookup_effects_def)
  from ashraf_today_mentions nf tr run show ?thesis by blast
qed

text \<open>
  C6, amended. The question \<open>how many proxies today\<close> is translated to the filter
  \<open>is_spoof = true\<close>, \<open>timestamp \<ge> today\<close> with the label \<open>Proxy Attempts (Today)\<close>,
  for every directory and every day. In general, unless rule 3 ends the translation
  with the \<open>not found\<close> reply, the call \<open>gte("timestamp", today)\<close> is among the calls
  of the filter, and the label the rules 1 to 3 left carries the suffix \<open>(Today)\<close>,
  exactly when the rules 1 to 3 set no filter or the question mentions \<open>today\<close>. Rule 3
  ends the translation exactly when the question names a student and the rules 1 to 3
  set no filter; then the reply is the \<open>not found\<close> message and no filter or label is
  produced, whether or not the question mentions \<open>today\<close>.
\<close>

theorem translate_today_rule:
  "translate client today ''how many proxies today''
     = Inr \<lparr>queryBuilder = [Eq ''is_spoof'' True, Gte ''timestamp'' today],
            dataLabel = ''Proxy Attempts (Today)'', filterApplied = True\<rparr>
   \<and> (translate client today q = Inr t \<longrightarrow>
        (Gte ''timestamp'' today \<in> set (queryBuilder t)
           \<longleftrightarrow> (\<not> rules_set_filter client q \<or> mentions_today q))
        \<and> dataLabel t = rules_label client q
             @ (if \<not> rules_set_filter client q \<or> mentions_today q then '' (Today)'' else []))
   \<and> ((\<exists>t'. translate client today q = Inr t')
        \<longleftrightarrow> (\<not> mentions_student q \<or> rules_set_filter client q))
   \<and> (mentions_student q \<and> \<not> rules_set_filter client q \<longrightarrow>
        translate client today q = Inl (not_found_message (namePart q)))"
proof -
  let ?q = "''how many proxies today''"
  have m: "matched_students client ?q = []"
    using proxies_today_mentions by (simp add: matched_students_def)
  have f: "rules_set_filter client ?q"
    using proxies_today_mentions by (simp add: rules_set_filter_def)
  have l: "rules_label client ?q = ''Proxy Attempts''"
    using proxies_today_mentions by (simp add: rules_label_def m)
  have example: "translate client today ?q
     = Inr \<lparr>queryBuilder = [Eq ''is_spoof'' True, Gte ''timestamp'' today],
            dataLabel = ''Proxy Attempts (Today)'', filterApplied = True\<rparr>"
    using proxies_today_mentions f by (simp add: translate_found m l)
  have shape: "(Gte ''timestamp'' today \<in> set (queryBuilder t)
           \<longleftrightarrow> (\<not> rules_set_filter client q \<or> mentions_today q))
        \<and> dataLabel t = rules_label client q
             @ (if \<not> rules_set_filter client q \<or> mentions_today q then '' (Today)'' else [])"
    if "translate client today q = Inr t"
  proof (cases "mentions_student q \<and> \<not> rules_set_filter client q")
    case True
    with that translate_not_found[of q client today] show ?thesis by simp
  next
    case False
    then have "\<not> mentions_student q \<or> rules_set_filter client q" by blast
    from translate_found[OF this, of today] that
    have "t = \<lparr>queryBuilder =
            (if mentions_proxy q then [Eq ''is_spoof'' True] else [])
            @ (if mentions_intruder q then [IsNull ''roll_no''] else [])
            @ (if matched_students client q \<noteq> []
               then [In ''roll_no'' (map student_roll_no (matched_students client q))] else [])
            @ (if \<not> rules_set_filter client q \<or> mentions_today q
               then [Gte ''timestamp'' today] else []),
          dataLabel = rules_label client q
            @ (if \<not> rules_set_filter client q \<or> mentions_today q then '' (Today)'' else []),
          filterApplied = rules_set_filter client q\<rparr>"
      by simp
    then show ?thesis by simp
  qed
  have yields: "(\<exists>t'. translate client today q = Inr t')
        \<longleftrightarrow> (\<not> mentions_student q \<or> rules_set_filter client q)"
  proof (cases "mentions_student q \<and> \<not> rules_set_filter client q")
    case True
    with translate_not_found[of q client today] show ?thesis by simp
  next
    case False
    then have "\<not> mentions_student q \<or> rules_set_filter client q" by blast
    from translate_found[OF this, of today] this show ?thesis by simp
  qed
  have ends: "translate client today q = Inl (not_found_message (namePart q))"
    if "mentions_student q \<and> \<not> rules_set_filter client q"
    using that translate_not_found[of q client today] by blast
  from example shape yields ends show ?thesis by blast
qed

lemma hello_mentions:
  "\<not> mentions_proxy ''hello'' \<and> \<not> mentions_intruder ''hello''
   \<and> \<not> mentions_student ''hello'' \<and> \<not> mentions_today ''hello''"
  by code_simp

theorem translate_today_rule_witness:
  "translate empty_school ''2025-01-01'' ''hello''
     = Inr \<lparr>queryBuilder = [Gte ''timestamp'' ''2025-01-01''],
            dataLabel = ''Attendance Logs (Today)'', filterApplied = False\<rparr>
   \<and> Gte ''timestamp'' ''2025-01-01''
       \<in> set (queryBuilder \<lparr>queryBuilder = [Gte ''timestamp'' ''2025-01-01''],
            dataLabel = ''Attendance Logs (Today)'', filterApplied = False\<rparr>)
   \<and> translate empty_school ''2025-01-01'' ''how many proxies today''
     = Inr \<lparr>queryBuilder = [Eq ''is_spoof'' True, Gte ''timestamp'' ''2025-01-01''],
            dataLabel = ''Proxy Attempts (Today)'', filterApplied = True\<rparr>"
proof -
  let ?t = "\<lparr>queryBuilder = [Gte ''timestamp'' ''2025-01-01''],
            dataLabel = ''Attendance Logs (Today)'', filterApplied = False\<rparr>"
  have nf: "\<not> rules_set_filter empty_school ''hello''"
    using hello_mentions by (simp add: rules_set_filter_def matched_students_def)
  have lab: "rules_label empty_school ''hello'' = ''Attendance Logs''"
    using hello_mentions by (simp add: rules_label_def matched_students_def)
  have tr: "translate empty_school ''2025-01-01'' ''hello'' = Inr ?t"
    using hello_mentions nf lab
    by (simp add: translate_found matched_students_def)
  note inst = translate_today_rule[of empty_school "''2025-01-01''" "''hello''" "?t"]
  from inst tr nf have "Gte ''timestamp'' ''2025-01-01'' \<in> set (queryBuilder ?t)"
    by blast
  with inst tr show ?thesis by blast
qed

lemma runRAGAnalysis_not_found:
  assumes "translate client today q = Inl reply"
  shows "runRAGAnalysis API_KEY fetch today (Some client) q = (Inr reply, lookup_effects q)"
  using assms by (simp add: runRAGAnalysis_def)

text \<open>
  C7. When the question names one of the known students, the directory lookup returns
  no student (an empty list, or no data at all), and the question mentions neither
  proxies nor intruders, \<open>runRAGAnalysis\<close> returns the \<open>not found\<close> reply. The lookup
  in the directory is its only effect: the logs are not queried and
  \<open>generateContent\<close> is not called, whatever the key and the network are.
\<close>

theorem unknown_student_short_circuit:
  assumes "mentions_student q"
      and "\<not> mentions_proxy q" and "\<not> mentions_intruder q"
      and "students_ilike client (name_pattern q) = None
           \<or> students_ilike client (name_pattern q) = Some []"
  shows "runRAGAnalysis API_KEY fetch today (Some client) q
           = (Inr (not_found_message (namePart q)), [StudentsQuery (name_pattern q)])
       \<and> (\<forall>sys query. GenerateContent sys query
             \<notin> set (snd (runRAGAnalysis API_KEY fetch today (Some client) q)))"
proof -
  have "matched_students client q = []"
    using assms(4) by (auto simp: matched_students_def)
  then have "\<not> rules_set_filter client q"
    using assms(2,3) by (simp add: rules_set_filter_def)
  then have "translate client today q = Inl (not_found_message (namePart q))"
    using assms(1) by (rule translate_not_found[rotated])
  then have "runRAGAnalysis API_KEY fetch today (Some client) q
           = (Inr (not_found_message (namePart q)), lookup_effects q)"
    by (rule runRAGAnalysis_not_found)
  then show ?thesis
    using assms(1) by (simp add: lookup_effects_def)
qed

lemma ashraf_mentions:
  "mentions_student ''what did Ashraf do'' \<and> \<not> mentions_proxy ''what did Ashraf do''
   \<and> \<not> mentions_intruder ''what did Ashraf do''
   \<and> namePart ''what did Ashraf do'' = ''ashraf''
   \<and> name_pattern ''what did Ashraf do'' = ''%ashraf%''"
  by code_simp

theorem unknown_student_short_circuit_witness:
  "mentions_student ''what did Ashraf do''
   \<and> students_ilike empty_school (name_pattern ''what did Ashraf do'') = Some []
   \<and> runRAGAnalysis ''key'' third_time_lucky ''2025-01-01'' (Some empty_school)
        ''what did Ashraf do''
       = (Inr (not_found_message ''ashraf''), [StudentsQuery ''%ashraf%''])"
proof -
  have s: "students_ilike empty_school (name_pattern ''what did Ashraf do'') = Some []"
    by (simp add: empty_school_def)
  from ashraf_mentions s
    unknown_student_short_circuit[of "''what did Ashraf do''" empty_school "''key''"
      third_time_lucky "''2025-01-01''"]
  show ?thesis by simp
qed

end
